theory Spec2Isabelle
  imports Complex_Main
begin

section \<open>JavaScript values and the built-ins the plugin calls\<close>

text \<open>
  The expression plugin (\<^verbatim>\<open>jexlParser.js\<close>) works on untyped JavaScript values and leans on
  \<^verbatim>\<open>Number.parseInt\<close>, \<^verbatim>\<open>Number.parseFloat\<close>, \<^verbatim>\<open>isNaN\<close>, \<^verbatim>\<open>String\<close> and truthiness.
  They are written out here after ECMA-262. A finite number is the rational it denotes.
  The numbers of the language are the binary64 values: a conversion from a string rounds
  the value written to the nearest of them (\<open>toBinary64\<close>), and a number prints as the
  shortest decimal that reads back as the same value. \<open>-0\<close> is \<open>0\<close> (both are falsy
  and print as \<^verbatim>\<open>0\<close>). A \<open>char\<close> stands for one code unit below 256.
\<close>

datatype jsnum = NaN | Infinity | NegInfinity | Num rat

datatype jsval = JUndefined | JNull | JBool bool | JNumber jsnum | JString string

definition isWhiteSpace :: "char \<Rightarrow> bool" where
  "isWhiteSpace c = (of_char c \<in> {9, 10, 11, 12, 13, 32, 160 :: nat})"

definition isDigit :: "char \<Rightarrow> bool" where
  "isDigit c = (48 \<le> (of_char c :: int) \<and> (of_char c :: int) \<le> 57)"

definition digitValue :: "char \<Rightarrow> int option" where
  "digitValue c =
     (let n = of_char c :: int in
      if 48 \<le> n \<and> n \<le> 57 then Some (n - 48)
      else if 97 \<le> n \<and> n \<le> 122 then Some (n - 87)
      else if 65 \<le> n \<and> n \<le> 90 then Some (n - 55)
      else None)"

definition isRadixDigit :: "int \<Rightarrow> char \<Rightarrow> bool" where
  "isRadixDigit R c = (case digitValue c of Some d \<Rightarrow> d < R | None \<Rightarrow> False)"

text \<open>The mathematical integer written by a string of radix-\<open>R\<close> digits.\<close>

definition mathInt :: "int \<Rightarrow> string \<Rightarrow> int" where
  "mathInt R Z = foldl (\<lambda>acc c. acc * R + (case digitValue c of Some d \<Rightarrow> d | None \<Rightarrow> 0)) 0 Z"

subsection \<open>Rounding to binary64\<close>

text \<open>The number of binary digits of a positive integer.\<close>

function bitLength :: "int \<Rightarrow> int" where
  "bitLength n = (if 0 < n then 1 + bitLength (n div 2) else 0)"
  by pat_completeness auto
termination
  by (relation "measure nat") auto

declare bitLength.simps [simp del]

text \<open>\<open>scale b e\<close> is \<open>b\<close> to the power \<open>e\<close>, for an exponent of either sign.\<close>

definition scale :: "int \<Rightarrow> int \<Rightarrow> rat" where
  "scale b e = (if 0 \<le> e then of_int (b ^ nat e) else 1 / of_int (b ^ nat (- e)))"

text \<open>The nearest integer; of two that are equally near, the even one.\<close>

definition roundHalfEven :: "rat \<Rightarrow> int" where
  "roundHalfEven r =
     (let f = \<lfloor>r\<rfloor>; d = r - of_int f
      in if d < 1 / 2 then f else if 1 / 2 < d then f + 1 else if even f then f else f + 1)"

text \<open>For a positive \<open>a\<close>, the exponent \<open>e\<close> with \<open>2 ^ e \<le> a < 2 ^ (e + 1)\<close>.\<close>

definition binaryExponent :: "rat \<Rightarrow> int" where
  "binaryExponent a =
     (let (p, q) = quotient_of a; e = bitLength p - bitLength q
      in if scale 2 e \<le> a then e else e - 1)"

text \<open>
  The binary64 value nearest to a rational, ties to the even significand. A value has 53
  significant bits, its exponent is at least -1022 (below that the spacing stays
  \<open>2 ^ -1074\<close>, down to 0), and a result of \<open>2 ^ 1024\<close> or more is an infinity.
\<close>

definition toBinary64 :: "rat \<Rightarrow> jsnum" where
  "toBinary64 x =
     (if x = 0 then Num 0
      else (let a = \<bar>x\<bar>;
                e = max (binaryExponent a) (- 1022);
                m = roundHalfEven (a / scale 2 (e - 52))
            in if 1024 \<le> e \<or> (e = 1023 \<and> m = 2 ^ 53)
               then (if x < 0 then NegInfinity else Infinity)
               else Num (if x < 0 then - (of_int m * scale 2 (e - 52))
                         else of_int m * scale 2 (e - 52))))"

subsection \<open>Number to string\<close>

text \<open>The decimal digits of a non-negative integer.\<close>

function digitsToString :: "int \<Rightarrow> string" where
  "digitsToString n =
     (if n < 10 then [char_of (48 + n)]
      else digitsToString (n div 10) @ [char_of (48 + n mod 10)])"
  by pat_completeness auto
termination
  by (relation "measure nat") auto

declare digitsToString.simps [simp del]

text \<open>For a positive \<open>a\<close>, the exponent \<open>n\<close> with \<open>10 ^ (n - 1) \<le> a < 10 ^ n\<close>.\<close>

definition decimalExponent :: "rat \<Rightarrow> int" where
  "decimalExponent a =
     (let (p, q) = quotient_of a;
          n = int (length (digitsToString p)) - int (length (digitsToString q))
      in if scale 10 n \<le> a then n + 1 else n)"

text \<open>
  \<^verbatim>\<open>Number::toString\<close> picks integers \<open>n\<close>, \<open>k\<close> and \<open>s\<close> with \<open>k\<close> digits in \<open>s\<close>, such
  that \<open>s \<times> 10 ^ (n - k)\<close> reads back as the number and \<open>k\<close> is as small as possible,
  \<open>s\<close> then being as near to the number as possible. \<open>candidate k a\<close> is the nearest
  decimal of \<open>k\<close> digits; \<open>shortestDigits\<close> tries \<open>k\<close> = 1, 2, ... up to 17 digits,
  which tell any two binary64 values apart (a rational that is no binary64 value gets 17
  digits).
\<close>

definition candidate :: "int \<Rightarrow> rat \<Rightarrow> int \<times> int" where
  "candidate k a =
     (let n = decimalExponent a; s = roundHalfEven (a / scale 10 (n - k))
      in if s = 10 ^ nat k then (10 ^ nat (k - 1), n + 1) else (s, n))"

fun shortestDigits :: "nat \<Rightarrow> int \<Rightarrow> rat \<Rightarrow> int \<times> int" where
  "shortestDigits 0 k a = candidate k a"
| "shortestDigits (Suc tries) k a =
     (let (s, n) = candidate k a
      in if toBinary64 (of_int s * scale 10 (n - k)) = Num a then (s, n)
         else shortestDigits tries (k + 1) a)"

text \<open>The four layouts of the standard, for the digits \<open>ds\<close> of \<open>s\<close> and the exponent \<open>n\<close>.\<close>

definition positiveToString :: "rat \<Rightarrow> string" where
  "positiveToString a =
     (let (s, n) = shortestDigits 16 1 a;
          ds = digitsToString s;
          k = int (length ds)
      in if k \<le> n \<and> n \<le> 21 then ds @ replicate (nat (n - k)) CHR ''0''
         else if 0 < n \<and> n \<le> 21 then take (nat n) ds @ ''.'' @ drop (nat n) ds
         else if - 6 < n \<and> n \<le> 0 then ''0.'' @ replicate (nat (- n)) CHR ''0'' @ ds
         else (if k = 1 then ds else hd ds # CHR ''.'' # tl ds)
              @ ''e'' @ (if n - 1 < 0 then ''-'' else ''+'') @ digitsToString \<bar>n - 1\<bar>)"

fun numberToString :: "jsnum \<Rightarrow> string" where
  "numberToString NaN = ''NaN''"
| "numberToString Infinity = ''Infinity''"
| "numberToString NegInfinity = ''-Infinity''"
| "numberToString (Num q) =
     (if q = 0 then ''0''
      else if q < 0 then CHR ''-'' # positiveToString (- q)
      else positiveToString q)"

fun ToString :: "jsval \<Rightarrow> string" where
  "ToString JUndefined = ''undefined''"
| "ToString JNull = ''null''"
| "ToString (JBool b) = (if b then ''true'' else ''false'')"
| "ToString (JNumber x) = numberToString x"
| "ToString (JString s) = s"

text \<open>\<^verbatim>\<open>value.toString()\<close>: a method call, so a \<^verbatim>\<open>TypeError\<close> (here \<open>None\<close>) on null and undefined.\<close>

fun toStringMethod :: "jsval \<Rightarrow> string option" where
  "toStringMethod JUndefined = None"
| "toStringMethod JNull = None"
| "toStringMethod v = Some (ToString v)"

subsection \<open>String to number\<close>

text \<open>
  The longest prefix that is a \<^verbatim>\<open>StrDecimalLiteral\<close>, with its value and the rest of the
  string; \<open>None\<close> when no prefix is one. \<open>scanUnsignedDecimal\<close> gives the value as
  written; \<open>scanDecimal\<close> rounds it.
\<close>

definition scanExponent :: "string \<Rightarrow> int \<times> string" where
  "scanExponent r =
     (if r \<noteq> [] \<and> (hd r = CHR ''e'' \<or> hd r = CHR ''E'') then
        (let r1 = tl r;
             neg = (r1 \<noteq> [] \<and> hd r1 = CHR ''-'');
             r2 = (if r1 \<noteq> [] \<and> (hd r1 = CHR ''+'' \<or> hd r1 = CHR ''-'') then tl r1 else r1);
             ds = takeWhile isDigit r2
         in if ds = [] then (0, r)
            else ((if neg then - mathInt 10 ds else mathInt 10 ds), dropWhile isDigit r2))
      else (0, r))"

definition scanUnsignedDecimal :: "string \<Rightarrow> (rat \<times> string) option" where
  "scanUnsignedDecimal U =
     (let ints = takeWhile isDigit U;
          r1 = dropWhile isDigit U;
          dot = (r1 \<noteq> [] \<and> hd r1 = CHR ''.'');
          fracs = (if dot then takeWhile isDigit (tl r1) else []);
          r2 = (if dot then dropWhile isDigit (tl r1) else r1)
      in if ints = [] \<and> fracs = [] then None
         else (let (e, r3) = scanExponent r2;
                   m = of_int (mathInt 10 ints) + of_int (mathInt 10 fracs) / 10 ^ length fracs
               in Some (m * scale 10 e, r3)))"

definition scanDecimal :: "string \<Rightarrow> (jsnum \<times> string) option" where
  "scanDecimal S =
     (let neg = (S \<noteq> [] \<and> hd S = CHR ''-'');
          U = (if S \<noteq> [] \<and> (hd S = CHR ''+'' \<or> hd S = CHR ''-'') then tl S else S)
      in if take 8 U = ''Infinity'' then Some ((if neg then NegInfinity else Infinity), drop 8 U)
         else (case scanUnsignedDecimal U of
                 None \<Rightarrow> None
               | Some (m, r) \<Rightarrow> Some (toBinary64 (if neg then - m else m), r)))"

definition parseFloat :: "jsval \<Rightarrow> jsnum" where
  "parseFloat v =
     (case scanDecimal (dropWhile isWhiteSpace (ToString v)) of
        None \<Rightarrow> NaN
      | Some (x, r) \<Rightarrow> x)"

text \<open>
  \<^verbatim>\<open>Number.parseInt(string)\<close> with no radix: base 10, or 16 after a \<^verbatim>\<open>0x\<close> prefix. The
  integer written is rounded to a number.
\<close>

definition parseInt :: "jsval \<Rightarrow> jsnum" where
  "parseInt v =
     (let S = dropWhile isWhiteSpace (ToString v);
          neg = (S \<noteq> [] \<and> hd S = CHR ''-'');
          S1 = (if S \<noteq> [] \<and> (hd S = CHR ''+'' \<or> hd S = CHR ''-'') then tl S else S);
          hex = (take 2 S1 = ''0x'' \<or> take 2 S1 = ''0X'');
          R = (if hex then 16 else 10);
          S2 = (if hex then drop 2 S1 else S1);
          Z = takeWhile (isRadixDigit R) S2
      in if Z = [] then NaN
         else toBinary64 (if neg then - of_int (mathInt R Z) else of_int (mathInt R Z)))"

text \<open>\<^verbatim>\<open>ToNumber\<close>: a string must be a numeric literal as a whole, up to surrounding white space.\<close>

definition nonDecimalLiteral :: "int \<Rightarrow> string \<Rightarrow> jsnum" where
  "nonDecimalLiteral R ds =
     (if ds \<noteq> [] \<and> list_all (isRadixDigit R) ds then toBinary64 (of_int (mathInt R ds))
      else NaN)"

definition stringToNumber :: "string \<Rightarrow> jsnum" where
  "stringToNumber s =
     (let t = rev (dropWhile isWhiteSpace (rev (dropWhile isWhiteSpace s)));
          p = take 2 t
      in if t = [] then Num 0
         else if p = ''0x'' \<or> p = ''0X'' then nonDecimalLiteral 16 (drop 2 t)
         else if p = ''0o'' \<or> p = ''0O'' then nonDecimalLiteral 8 (drop 2 t)
         else if p = ''0b'' \<or> p = ''0B'' then nonDecimalLiteral 2 (drop 2 t)
         else (case scanDecimal t of
                 Some (x, []) \<Rightarrow> x
               | _ \<Rightarrow> NaN))"

fun ToNumber :: "jsval \<Rightarrow> jsnum" where
  "ToNumber JUndefined = NaN"
| "ToNumber JNull = Num 0"
| "ToNumber (JBool b) = (if b then Num 1 else Num 0)"
| "ToNumber (JNumber x) = x"
| "ToNumber (JString s) = stringToNumber s"

definition isNaN :: "jsval \<Rightarrow> bool" where
  "isNaN v = (ToNumber v = NaN)"

text \<open>Truthiness, as \<^verbatim>\<open>if\<close>, \<^verbatim>\<open>&&\<close> and \<^verbatim>\<open>||\<close> test it.\<close>

fun numTruthy :: "jsnum \<Rightarrow> bool" where
  "numTruthy NaN = False"
| "numTruthy (Num q) = (q \<noteq> 0)"
| "numTruthy x = True"

fun truthy :: "jsval \<Rightarrow> bool" where
  "truthy JUndefined = False"
| "truthy JNull = False"
| "truthy (JBool b) = b"
| "truthy (JNumber x) = numTruthy x"
| "truthy (JString s) = (s \<noteq> [])"

section \<open>The expression plugin (jexlParser.js)\<close>

text \<open>
  One record serves every attribute object of the two modules: a device measure
  \<^verbatim>\<open>{name, type, value}\<close>, a derived attribute of the device definition
  \<^verbatim>\<open>{name, type, expression, object_id}\<close>, and the attributes of an NGSI entity. A field the
  object does not carry is \<open>None\<close> (or \<open>JUndefined\<close> for \<open>value\<close>).
\<close>

record attribute =
  name :: string
  type :: string
  "value" :: jsval
  expression :: "string option"
  object_id :: "string option"

text \<open>
  The context object, known by its own keys and their values (\<^verbatim>\<open>Object.keys\<close> lists those).
  Assigning to a key replaces its value.
\<close>

type_synonym expr_context = "string \<rightharpoonup> jsval"

subsection \<open>The Jexl engine\<close>

text \<open>
  Jexl is a third-party library. Its lexer, its evaluator and the transforms registered
  with it are parameters of the model: \<open>tokenize\<close> yields the token list or throws
  (\<open>None\<close>), \<open>evalSync\<close> yields a value or throws (\<open>None\<close>), \<open>transforms\<close> holds the
  functions registered, by name. Of a token only \<^verbatim>\<open>type\<close> and \<^verbatim>\<open>value\<close> are read, and the
  value only on identifier tokens, where it is the identifier's name. The list
  \<open>evaluations\<close> records every call of \<open>evalSync\<close>, in order, so that "nothing was
  evaluated" can be stated.
\<close>

datatype token = Token (tokenType: string) (tokenValue: string)

type_synonym transform = "jsval list \<Rightarrow> jsval"

record jexl =
  tokenize :: "string \<Rightarrow> token list option"
  evalSync :: "string option \<Rightarrow> expr_context \<Rightarrow> jsval option"
  transforms :: "string \<rightharpoonup> transform"

type_synonym evaluations = "string option list"

datatype exn = InvalidExpression string | TypeError | JexlError

definition addTransform :: "string \<Rightarrow> transform \<Rightarrow> jexl \<Rightarrow> jexl" where
  "addTransform n f J = J\<lparr>transforms := (transforms J)(n \<mapsto> f)\<rparr>"

text \<open>
  Jexl keeps the transforms as the properties of a plain object, and \<^verbatim>\<open>getTransform(name)\<close>
  reads the property of that name: the function registered under the name, if any. A
  plain object also inherits the members of \<^verbatim>\<open>Object.prototype\<close>: under one of their names
  the answer is that member when no transform is registered under it. For any other name
  without a transform the answer is \<^verbatim>\<open>undefined\<close> (\<open>None\<close>).
\<close>

definition objectPrototype :: "string list" where
  "objectPrototype =
     [''constructor'', ''__defineGetter__'', ''__defineSetter__'', ''hasOwnProperty'',
      ''__lookupGetter__'', ''__lookupSetter__'', ''isPrototypeOf'', ''propertyIsEnumerable'',
      ''toString'', ''valueOf'', ''__proto__'', ''toLocaleString'']"

datatype member = Registered transform | Inherited string

definition getTransform :: "jexl \<Rightarrow> string \<Rightarrow> member option" where
  "getTransform J n =
     (case transforms J n of
        Some f \<Rightarrow> Some (Registered f)
      | None \<Rightarrow> if n \<in> set objectPrototype then Some (Inherited n) else None)"

text \<open>
  The four transforms the module registers when it is loaded. An argument that is not
  passed is \<^verbatim>\<open>undefined\<close>. \<^verbatim>\<open>indexOf\<close> is the first position of the string of its argument,
  or -1; \<^verbatim>\<open>substr\<close> takes a start (from the end when negative) and a length.
\<close>

definition arg :: "jsval list \<Rightarrow> nat \<Rightarrow> jsval" where
  "arg args i = (if i < length args then args ! i else JUndefined)"

fun stringIndexOf :: "string \<Rightarrow> string \<Rightarrow> int" where
  "stringIndexOf [] searched = (if searched = [] then 0 else - 1)"
| "stringIndexOf (c # cs) searched =
     (if take (length searched) (c # cs) = searched then 0
      else (let k = stringIndexOf cs searched in if k < 0 then - 1 else k + 1))"

definition stringTrim :: "string \<Rightarrow> string" where
  "stringTrim s = rev (dropWhile isWhiteSpace (rev (dropWhile isWhiteSpace s)))"

text \<open>\<^verbatim>\<open>ToIntegerOrInfinity\<close>, cut to the range from \<open>lo\<close> to \<open>hi\<close>.\<close>

fun integerWithin :: "int \<Rightarrow> int \<Rightarrow> jsnum \<Rightarrow> int" where
  "integerWithin lo hi NaN = max lo (min hi 0)"
| "integerWithin lo hi Infinity = hi"
| "integerWithin lo hi NegInfinity = lo"
| "integerWithin lo hi (Num q) = max lo (min hi (if 0 \<le> q then \<lfloor>q\<rfloor> else \<lceil>q\<rceil>))"

definition stringSubstr :: "string \<Rightarrow> jsval \<Rightarrow> jsval \<Rightarrow> string" where
  "stringSubstr s start len =
     (let size = int (length s);
          relative = integerWithin (- size) size (ToNumber start);
          intStart = (if relative < 0 then size + relative else relative);
          intLength = (if len = JUndefined then size else integerWithin 0 size (ToNumber len));
          intEnd = min (intStart + intLength) size
      in take (nat (intEnd - intStart)) (drop (nat intStart) s))"

definition indexOfTransform :: transform where
  "indexOfTransform args =
     JNumber (toBinary64 (of_int (stringIndexOf (ToString (arg args 0)) (ToString (arg args 1)))))"

definition lengthTransform :: transform where
  "lengthTransform args = JNumber (toBinary64 (of_int (int (length (ToString (arg args 0))))))"

definition trimTransform :: transform where
  "trimTransform args = JString (stringTrim (ToString (arg args 0)))"

definition substrTransform :: transform where
  "substrTransform args = JString (stringSubstr (ToString (arg args 0)) (arg args 1) (arg args 2))"

definition registerTransforms :: "jexl \<Rightarrow> jexl" where
  "registerTransforms J =
     addTransform ''substr'' substrTransform
       (addTransform ''trim'' trimTransform
          (addTransform ''length'' lengthTransform
             (addTransform ''indexOf'' indexOfTransform J)))"

text \<open>
  \<^verbatim>\<open>jexl.getTransform(identifier) === (null || undefined) ? false : true\<close>: the comparison is
  with \<^verbatim>\<open>undefined\<close>, so the answer is \<open>true\<close> for a registered transform and for every
  name of \<open>objectPrototype\<close>.
\<close>

definition isTransform :: "jexl \<Rightarrow> string \<Rightarrow> bool" where
  "isTransform J identifier = (getTransform J identifier \<noteq> None)"

subsection \<open>extractContext\<close>

text \<open>The body of the loop: the value stored for one attribute (the \<^verbatim>\<open>if\<close> chain).\<close>

definition coercedValue :: "jsval \<Rightarrow> jsval" where
  "coercedValue v =
     (if numTruthy (parseInt v) then JNumber (parseInt v)
      else if numTruthy (parseFloat v) then JNumber (parseFloat v)
      else if ToString v = ''true'' then JBool True
      else if ToString v = ''false'' then JBool False
      else v)"

text \<open>
  The loop, from the context built so far. \<^verbatim>\<open>context[name] = value\<close> sets an own key, but for
  the name \<^verbatim>\<open>__proto__\<close>: as long as the context inherits from \<^verbatim>\<open>Object.prototype\<close> that
  assignment calls the inherited setter, which makes no own key; the setter ignores a value
  that is no object, and with \<^verbatim>\<open>null\<close> it takes the prototype away, after which
  \<^verbatim>\<open>__proto__\<close> is a key like any other. \<open>bare\<close> tells whether the prototype has been taken
  away. (The values are scalars: no object is assigned.)
\<close>

fun extractContextFrom :: "attribute list \<Rightarrow> expr_context \<Rightarrow> bool \<Rightarrow> expr_context" where
  "extractContextFrom [] ctx bare = ctx"
| "extractContextFrom (a # attributeList) ctx bare =
     (if name a = ''__proto__'' \<and> \<not> bare
      then extractContextFrom attributeList ctx (coercedValue (value a) = JNull)
      else extractContextFrom attributeList (ctx(name a \<mapsto> coercedValue (value a))) bare)"

definition extractContext :: "attribute list \<Rightarrow> expr_context" where
  "extractContext attributeList = extractContextFrom attributeList Map.empty False"

subsection \<open>applyExpression and expressionApplier\<close>

text \<open>The parameter \<^verbatim>\<open>typeInformation\<close> of the source is never read and is left out.\<close>

definition applyExpression ::
  "jexl \<Rightarrow> string option \<Rightarrow> expr_context \<Rightarrow> evaluations \<Rightarrow> (exn + jsval) \<times> evaluations" where
  "applyExpression J e ctx evs =
     ((case evalSync J e ctx of None \<Rightarrow> Inl JexlError | Some v \<Rightarrow> Inr v), evs @ [e])"

definition isFloat :: "jsval \<Rightarrow> exn + bool" where
  "isFloat v =
     (if isNaN v then Inr False
      else (case toStringMethod v of
              None \<Rightarrow> Inl TypeError
            | Some s \<Rightarrow> Inr (CHR ''.'' \<in> set s)))"

text \<open>
  \<open>ngsi2\<close> is the answer of \<^verbatim>\<open>config.checkNgsi2()\<close>, the deployment dialect.
  \<open>stringTruthy\<close> is the truthiness of an optional string field.
\<close>

definition stringTruthy :: "string option \<Rightarrow> bool" where
  "stringTruthy f = (case f of None \<Rightarrow> False | Some s \<Rightarrow> s \<noteq> [])"

definition expressionApplier ::
  "jexl \<Rightarrow> bool \<Rightarrow> expr_context \<Rightarrow> attribute \<Rightarrow> evaluations \<Rightarrow> (exn + attribute) \<times> evaluations" where
  "expressionApplier J ngsi2 ctx a evs =
     (let newAttribute =
            \<lparr>name = name a, type = type a, value = JUndefined, expression = None,
             object_id = (if ngsi2 \<and> stringTruthy (object_id a) then object_id a else None)\<rparr>
      in case applyExpression J (expression a) ctx evs of
           (Inl e, evs') \<Rightarrow> (Inl e, evs')
         | (Inr v, evs') \<Rightarrow>
             (case (if type a = ''Number'' then isFloat v else Inr False) of
                Inl e \<Rightarrow> (Inl e, evs')
              | Inr True \<Rightarrow> (Inr (newAttribute\<lparr>value := JNumber (parseFloat v)\<rparr>), evs')
              | Inr False \<Rightarrow>
                  if type a = ''Number'' \<and> numTruthy (parseInt v)
                  then (Inr (newAttribute\<lparr>value := JNumber (parseInt v)\<rparr>), evs')
                  else if type a = ''Boolean''
                  then (Inr (newAttribute\<lparr>value := JBool (v = JString ''true'' \<or> v = JString ''1'')\<rparr>), evs')
                  else if type a = ''None''
                  then (Inr (newAttribute\<lparr>value := JNull\<rparr>), evs')
                  else (Inr (newAttribute\<lparr>value := JString (ToString v)\<rparr>), evs')))"

subsection \<open>contextAvailable and processExpressionAttributes\<close>

definition contextAvailable ::
  "jexl \<Rightarrow> string \<Rightarrow> expr_context \<Rightarrow> evaluations \<Rightarrow> (exn + bool) \<times> evaluations" where
  "contextAvailable J e ctx evs =
     (case tokenize J e of
        None \<Rightarrow> (Inl (InvalidExpression e), evs)
      | Some tokens \<Rightarrow>
          (let identifiers = filter (\<lambda>token. tokenType token = ''identifier'') tokens;
               validContext =
                 (\<not> list_ex (\<lambda>element. ctx (tokenValue element) = None
                                       \<and> \<not> isTransform J (tokenValue element)) identifiers)
           in if validContext then
                (case evalSync J (Some e) ctx of
                   None \<Rightarrow> (Inl (InvalidExpression e), evs @ [Some e])
                 | Some v \<Rightarrow> (Inr True, evs @ [Some e]))
              else (Inr False, evs)))"

text \<open>The filter's test \<^verbatim>\<open>item.expression && contextAvailable(item.expression, context)\<close>.\<close>

definition keepItem ::
  "jexl \<Rightarrow> expr_context \<Rightarrow> attribute \<Rightarrow> evaluations \<Rightarrow> (exn + bool) \<times> evaluations" where
  "keepItem J ctx item evs =
     (case expression item of
        None \<Rightarrow> (Inr False, evs)
      | Some e \<Rightarrow> if e = [] then (Inr False, evs) else contextAvailable J e ctx evs)"

text \<open>\<^verbatim>\<open>Array.prototype.filter\<close> and \<^verbatim>\<open>map\<close> with a callback that may throw: left to right,
  the first exception ends the call.\<close>

fun filterItems ::
  "jexl \<Rightarrow> expr_context \<Rightarrow> attribute list \<Rightarrow> evaluations \<Rightarrow> (exn + attribute list) \<times> evaluations" where
  "filterItems J ctx [] evs = (Inr [], evs)"
| "filterItems J ctx (item # list) evs =
     (case keepItem J ctx item evs of
        (Inl e, evs') \<Rightarrow> (Inl e, evs')
      | (Inr keep, evs') \<Rightarrow>
          (case filterItems J ctx list evs' of
             (Inl e, evs'') \<Rightarrow> (Inl e, evs'')
           | (Inr kept, evs'') \<Rightarrow> (Inr (if keep then item # kept else kept), evs'')))"

fun mapItems ::
  "jexl \<Rightarrow> bool \<Rightarrow> expr_context \<Rightarrow> attribute list \<Rightarrow> evaluations \<Rightarrow> (exn + attribute list) \<times> evaluations" where
  "mapItems J ngsi2 ctx [] evs = (Inr [], evs)"
| "mapItems J ngsi2 ctx (item # list) evs =
     (case expressionApplier J ngsi2 ctx item evs of
        (Inl e, evs') \<Rightarrow> (Inl e, evs')
      | (Inr new, evs') \<Rightarrow>
          (case mapItems J ngsi2 ctx list evs' of
             (Inl e, evs'') \<Rightarrow> (Inl e, evs'')
           | (Inr news, evs'') \<Rightarrow> (Inr (new # news), evs'')))"

definition processExpressionAttributes ::
  "jexl \<Rightarrow> bool \<Rightarrow> attribute list \<Rightarrow> expr_context \<Rightarrow> evaluations \<Rightarrow> (exn + attribute list) \<times> evaluations" where
  "processExpressionAttributes J ngsi2 list ctx evs =
     (case filterItems J ctx list evs of
        (Inl e, evs') \<Rightarrow> (Inl e, evs')
      | (Inr kept, evs') \<Rightarrow> mapItems J ngsi2 ctx kept evs')"

subsection \<open>A small engine for concrete runs\<close>

text \<open>
  A stand-in with Jexl's interface that knows a handful of expressions: enough to run the
  functions above on concrete inputs. \<^verbatim>\<open>a # b\<close> does not tokenize; \<^verbatim>\<open>a +\<close> tokenizes and
  does not parse. An identifier evaluates to the value of that key of the context, and to
  \<^verbatim>\<open>undefined\<close> without such a key. (For \<^verbatim>\<open>toString\<close> Jexl finds the function that the
  context inherits, which is no value of \<open>jsval\<close>; the runs below that evaluate
  \<^verbatim>\<open>toString\<close> do not depend on the value.)
\<close>

definition sampleTokenize :: "string \<Rightarrow> token list option" where
  "sampleTokenize e =
     (if e = ''a+b'' then
        Some [Token ''identifier'' ''a'', Token ''binaryOp'' ''+'', Token ''identifier'' ''b'']
      else if e = ''c+b'' then
        Some [Token ''identifier'' ''c'', Token ''binaryOp'' ''+'', Token ''identifier'' ''b'']
      else if e = ''a|length'' then
        Some [Token ''identifier'' ''a'', Token ''pipe'' ''|'', Token ''identifier'' ''length'']
      else if e = ''a'' then Some [Token ''identifier'' ''a'']
      else if e = ''toString'' then Some [Token ''identifier'' ''toString'']
      else if e = ''a +'' then Some [Token ''identifier'' ''a'', Token ''binaryOp'' ''+'']
      else None)"

text \<open>The sum of two numbers of the context; a value that is missing or no number gives \<open>NaN\<close>.\<close>

definition sampleSum :: "expr_context \<Rightarrow> string \<Rightarrow> string \<Rightarrow> jsval" where
  "sampleSum ctx x y =
     (case (ctx x, ctx y) of
        (Some (JNumber (Num p)), Some (JNumber (Num q))) \<Rightarrow> JNumber (toBinary64 (p + q))
      | _ \<Rightarrow> JNumber NaN)"

definition sampleEvalSync :: "string option \<Rightarrow> expr_context \<Rightarrow> jsval option" where
  "sampleEvalSync e ctx =
     (if e = Some ''a+b'' then Some (sampleSum ctx ''a'' ''b'')
      else if e = Some ''c+b'' then Some (sampleSum ctx ''c'' ''b'')
      else if e = Some ''a|length'' then
        Some (lengthTransform [case ctx ''a'' of Some v \<Rightarrow> v | None \<Rightarrow> JUndefined])
      else if e = Some ''a'' then
        Some (case ctx ''a'' of Some v \<Rightarrow> v | None \<Rightarrow> JUndefined)
      else if e = Some ''toString'' then
        Some (case ctx ''toString'' of Some v \<Rightarrow> v | None \<Rightarrow> JUndefined)
      else None)"

definition sampleJexl :: jexl where
  "sampleJexl =
     registerTransforms
       \<lparr>tokenize = sampleTokenize, evalSync = sampleEvalSync, transforms = Map.empty\<rparr>"

section \<open>The context server (contextServer.js)\<close>

subsection \<open>Data\<close>

text \<open>
  An error object as the error middlewares read it: \<^verbatim>\<open>code\<close>, \<^verbatim>\<open>name\<close>, \<^verbatim>\<open>message\<close>.
  A completion callback receives an error (\<open>Inl\<close>) or a result; \<open>exn\<close> is an exception
  thrown on the way.
\<close>

record js_error =
  errorCode :: "int option"
  errorName :: string
  errorMessage :: string

text \<open>
  A v1 context element, and a v2 entity: an object whose keys are \<^verbatim>\<open>id\<close>, \<^verbatim>\<open>type\<close> and the
  attribute names, kept in enumeration order. A property holds a string, an attribute
  object, \<^verbatim>\<open>null\<close>, or \<^verbatim>\<open>undefined\<close> (which is also what reading a missing key gives).
\<close>

record contextElement =
  entityId :: string
  entityType :: string
  isPattern :: bool
  attributes :: "attribute list"

datatype field = FUndefined | FNull | FString string | FAttribute attribute

type_synonym entity = "(string \<times> field) list"

text \<open>The fields of a device (or of its configuration group) that the server reads.\<close>

record device =
  deviceId :: "string option"
  deviceName :: "string option"
  deviceType :: "string option"
  commands :: "attribute list option"
  lazy :: "attribute list option"
  staticAttributes :: "attribute list option"
  polling :: bool

record headers =
  fiwareService :: string
  fiwareServicepath :: string

text \<open>
  The collaborators the module requires (the device directory, the command queue, the
  NGSI client, two error classes and one constant) are parameters. A call answers its
  callback with an error or with a result.
\<close>

record services =
  getDeviceByName :: "string option \<Rightarrow> string \<Rightarrow> string \<Rightarrow> js_error + device"
  findConfigurationGroup :: "device \<Rightarrow> js_error + device"
  mergeDeviceWithConfiguration :: "device \<Rightarrow> device \<Rightarrow> js_error + device"
  listDevicesWithType :: "string option \<Rightarrow> string \<Rightarrow> string \<Rightarrow> js_error + nat \<times> device list"
  commandsAdd :: "string \<Rightarrow> string \<Rightarrow> string option \<Rightarrow> field \<Rightarrow> js_error option"
  ngsiUpdate :: "device \<Rightarrow> attribute list \<Rightarrow> js_error option"
  DeviceNotFound :: "string option \<Rightarrow> js_error"
  NotificationError :: "jsval \<Rightarrow> js_error"
  COMMAND_STATUS :: string

subsection \<open>The handler registrations\<close>

text \<open>
  The five module variables. A user handler is a function of the arguments it is called
  with; its answer is the error it passes to the callback, if any. \<open>None\<close> is an unset
  slot (\<^verbatim>\<open>undefined\<close> at load time, \<^verbatim>\<open>null\<close> after \<^verbatim>\<open>clear\<close>).
\<close>

type_synonym update_handler =
  "string option \<Rightarrow> string option \<Rightarrow> string \<Rightarrow> string \<Rightarrow> field list \<Rightarrow> js_error option"

type_synonym query_handler =
  "string option \<Rightarrow> string option \<Rightarrow> string \<Rightarrow> string \<Rightarrow> string list option \<Rightarrow> js_error + entity"

type_synonym notification_handler = "device \<Rightarrow> field list \<Rightarrow> js_error option"

type_synonym middleware = "device \<Rightarrow> field list \<Rightarrow> js_error + device \<times> field list"

record contextServer =
  notificationMiddlewares :: "middleware list"
  updateHandler :: "update_handler option"
  commandHandler :: "update_handler option"
  queryHandler :: "query_handler option"
  notificationHandler :: "notification_handler option"

definition initialServer :: contextServer where
  "initialServer =
     \<lparr>notificationMiddlewares = [], updateHandler = None, commandHandler = None,
      queryHandler = None, notificationHandler = None\<rparr>"

definition setUpdateHandler :: "update_handler \<Rightarrow> contextServer \<Rightarrow> contextServer" where
  "setUpdateHandler newHandler st = st\<lparr>updateHandler := Some newHandler\<rparr>"

definition setCommandHandler :: "update_handler \<Rightarrow> contextServer \<Rightarrow> contextServer" where
  "setCommandHandler newHandler st = st\<lparr>commandHandler := Some newHandler\<rparr>"

definition setQueryHandler :: "query_handler \<Rightarrow> contextServer \<Rightarrow> contextServer" where
  "setQueryHandler newHandler st = st\<lparr>queryHandler := Some newHandler\<rparr>"

definition setNotificationHandler :: "notification_handler \<Rightarrow> contextServer \<Rightarrow> contextServer" where
  "setNotificationHandler newHandler st = st\<lparr>notificationHandler := Some newHandler\<rparr>"

definition addNotificationMiddleware :: "middleware \<Rightarrow> contextServer \<Rightarrow> contextServer" where
  "addNotificationMiddleware newMiddleware st =
     st\<lparr>notificationMiddlewares := notificationMiddlewares st @ [newMiddleware]\<rparr>"

text \<open>\<^verbatim>\<open>clear\<close>: the four assignments of the source. (Its optional callback is then called.)\<close>

definition clear :: "contextServer \<Rightarrow> contextServer" where
  "clear st =
     st\<lparr>notificationMiddlewares := [], notificationHandler := None,
        commandHandler := None, updateHandler := None\<rparr>"

subsection \<open>Responses and the error middlewares\<close>

record statusCode =
  code :: int
  reasonPhrase :: string
  details :: "string option"

record contextResponse =
  contextElement :: contextElement
  statusCode :: statusCode

datatype body =
    ContextResponses "contextResponse list"
  | UpdateErrorNgsi1 "contextElement list" statusCode
  | ErrorCodeNgsi1 statusCode
  | ErrorNgsi2 string string
  | Entities "entity list"
  | EmptyObject
  | NoBody

text \<open>
  What a middleware does with a request: it sends a response, it passes an error to
  \<^verbatim>\<open>next\<close>, or an exception escapes from it.
\<close>

datatype outcome = Responded int body | Next js_error | Uncaught exn

text \<open>What a client reads off an error response: the status, and the name of the error.\<close>

fun statusSent :: "outcome \<Rightarrow> int option" where
  "statusSent (Responded c b) = Some c"
| "statusSent out = None"

fun errorNameSent :: "outcome \<Rightarrow> string option" where
  "errorNameSent (Responded c (UpdateErrorNgsi1 elements sc)) = Some (reasonPhrase sc)"
| "errorNameSent (Responded c (ErrorCodeNgsi1 sc)) = Some (reasonPhrase sc)"
| "errorNameSent (Responded c (ErrorNgsi2 n description)) = Some n"
| "errorNameSent out = None"

text \<open>
  \<^verbatim>\<open>error.code && String(error.code).match(/^[2345]\d\d$/)\<close>: for an integer code, three
  digits of which the first is 2 to 5.
\<close>

definition responseCode :: "js_error \<Rightarrow> int" where
  "responseCode error =
     (case errorCode error of
        None \<Rightarrow> 500
      | Some c \<Rightarrow> if c \<noteq> 0 \<and> 200 \<le> c \<and> c \<le> 599 then c else 500)"

text \<open>\<^verbatim>\<open>error.message.replace(/[<>\"\'=;\(\)]/g, '')\<close>.\<close>

definition stripped :: "string \<Rightarrow> string" where
  "stripped message =
     filter (\<lambda>c. c \<notin> set [CHR ''<'', CHR ''>'', CHR 0x22, CHR 0x27, CHR ''='', CHR '';'',
                            CHR ''('', CHR '')'']) message"

definition queryErrorHandlingNgsi1 :: "js_error \<Rightarrow> outcome" where
  "queryErrorHandlingNgsi1 error =
     Responded (responseCode error)
       (ErrorCodeNgsi1 \<lparr>code = responseCode error, reasonPhrase = errorName error,
                        details = Some (stripped (errorMessage error))\<rparr>)"

definition queryErrorHandlingNgsi2 :: "js_error \<Rightarrow> outcome" where
  "queryErrorHandlingNgsi2 error =
     Responded (responseCode error) (ErrorNgsi2 (errorName error) (stripped (errorMessage error)))"

definition updateErrorHandlingNgsi1 :: "js_error \<Rightarrow> contextElement list \<Rightarrow> outcome" where
  "updateErrorHandlingNgsi1 error reqBody =
     Responded (responseCode error)
       (UpdateErrorNgsi1 reqBody
          \<lparr>code = responseCode error, reasonPhrase = errorName error,
           details = Some (stripped (errorMessage error))\<rparr>)"

definition updateErrorHandlingNgsi2 :: "js_error \<Rightarrow> outcome" where
  "updateErrorHandlingNgsi2 error =
     Responded (responseCode error) (ErrorNgsi2 (errorName error) (stripped (errorMessage error)))"

text \<open>
  \<^verbatim>\<open>new Error({message: '...'})\<close>: the constructor turns its argument into a string, so the
  message of the object is \<^verbatim>\<open>[object Object]\<close>; the name is \<^verbatim>\<open>Error\<close> and there is no code.
\<close>

definition errorNotFound :: js_error where
  "errorNotFound = \<lparr>errorCode = None, errorName = ''Error'', errorMessage = ''[object Object]''\<rparr>"

subsection \<open>createUpdateResponse\<close>

text \<open>
  The inner loop runs \<open>j\<close> over the attributes and assigns to \<^verbatim>\<open>attributes[i].value\<close>, with
  \<open>i\<close> the index of the context element. Assigning to a property of \<^verbatim>\<open>undefined\<close> throws.
\<close>

function blankValues :: "nat \<Rightarrow> nat \<Rightarrow> attribute list \<Rightarrow> exn + attribute list" where
  "blankValues i j attrs =
     (if j < length attrs then
        (if i < length attrs
         then blankValues i (Suc j) (attrs[i := (attrs ! i)\<lparr>value := JString ''''\<rparr>])
         else Inl TypeError)
      else Inr attrs)"
  by pat_completeness auto
termination
  by (relation "measure (\<lambda>(i, j, attrs). length attrs - j)") auto

declare blankValues.simps [simp del]

fun contextResponsesFrom :: "nat \<Rightarrow> contextElement list \<Rightarrow> exn + contextResponse list" where
  "contextResponsesFrom i [] = Inr []"
| "contextResponsesFrom i (element # rest) =
     (case blankValues i 0 (attributes element) of
        Inl e \<Rightarrow> Inl e
      | Inr attrs \<Rightarrow>
          (case contextResponsesFrom (Suc i) rest of
             Inl e \<Rightarrow> Inl e
           | Inr responses \<Rightarrow>
               Inr (\<lparr>contextElement =
                        \<lparr>entityId = entityId element, entityType = entityType element,
                         isPattern = False, attributes = attrs\<rparr>,
                      statusCode = \<lparr>code = 200, reasonPhrase = ''OK'', details = None\<rparr>\<rparr>
                    # responses)))"

definition createUpdateResponse :: "contextElement list \<Rightarrow> exn + contextResponse list" where
  "createUpdateResponse contextElements = contextResponsesFrom 0 contextElements"

subsection \<open>Update actions\<close>

text \<open>
  An update action is one of the three partial applications that \<^verbatim>\<open>createActionsArray\<close>
  pushes: a user handler, \<^verbatim>\<open>pushCommandsToQueue\<close>, or \<^verbatim>\<open>executeUpdateSideEffects\<close>, each
  with \<open>(id, type, service, subservice, attributes)\<close>. The attribute objects handed on are
  fields in either dialect.
\<close>

datatype action =
    HandlerAction update_handler "string option" "string option" string string "field list"
  | PushCommandsToQueue device "string option" "string option" string string "field list"
  | ExecuteUpdateSideEffects device "string option" "string option" string string "field list"

text \<open>
  \<^verbatim>\<open>async.series\<close> and \<^verbatim>\<open>async.map\<close> report the first error. \<open>failing\<close> is \<^verbatim>\<open>async.map\<close>
  over a function that may also throw: a \<open>failure\<close> is the error passed to the callback or
  the exception thrown.
\<close>

datatype failure = CallbackError js_error | Thrown exn

fun failing :: "('a \<Rightarrow> failure + 'b) \<Rightarrow> 'a list \<Rightarrow> failure + 'b list" where
  "failing f [] = Inr []"
| "failing f (x # xs) =
     (case f x of
        Inl e \<Rightarrow> Inl e
      | Inr y \<Rightarrow> (case failing f xs of Inl e \<Rightarrow> Inl e | Inr ys \<Rightarrow> Inr (y # ys)))"

fun firstError :: "js_error option list \<Rightarrow> js_error option" where
  "firstError [] = None"
| "firstError (Some e # rs) = Some e"
| "firstError (None # rs) = firstError rs"

fun asyncMap :: "('a \<Rightarrow> js_error + 'b) \<Rightarrow> 'a list \<Rightarrow> js_error + 'b list" where
  "asyncMap f [] = Inr []"
| "asyncMap f (x # xs) =
     (case f x of
        Inl e \<Rightarrow> Inl e
      | Inr y \<Rightarrow> (case asyncMap f xs of Inl e \<Rightarrow> Inl e | Inr ys \<Rightarrow> Inr (y # ys)))"

text \<open>
  \<^verbatim>\<open>attributes[j].name\<close>, \<open>None\<close> being \<^verbatim>\<open>undefined\<close>. (The lists that get here hold strings
  and attribute objects: \<^verbatim>\<open>splitUpdates\<close> throws on anything else.)
\<close>

fun fieldName :: "field \<Rightarrow> string option" where
  "fieldName (FAttribute a) = Some (name a)"
| "fieldName f = None"

definition executeUpdateSideEffects :: "services \<Rightarrow> device \<Rightarrow> field list \<Rightarrow> js_error option" where
  "executeUpdateSideEffects svc device attrs =
     (case commands device of
        None \<Rightarrow> None
      | Some deviceCommands \<Rightarrow>
          firstError (concat (map (\<lambda>command.
            map (\<lambda>attr. ngsiUpdate svc device
                   [\<lparr>name = name command @ ''_status'', type = COMMAND_STATUS svc,
                     value = JString ''PENDING'', expression = None, object_id = None\<rparr>])
                (filter (\<lambda>attr. fieldName attr = Some (name command)) attrs)) deviceCommands)))"

definition pushCommandsToQueue ::
  "services \<Rightarrow> device \<Rightarrow> string \<Rightarrow> string \<Rightarrow> field list \<Rightarrow> js_error option" where
  "pushCommandsToQueue svc device service subservice attrs =
     firstError (map (commandsAdd svc service subservice (deviceId device)) attrs)"

fun runAction :: "services \<Rightarrow> action \<Rightarrow> js_error option" where
  "runAction svc (HandlerAction handler ident ty service subservice attrs) =
     handler ident ty service subservice attrs"
| "runAction svc (PushCommandsToQueue device ident ty service subservice attrs) =
     pushCommandsToQueue svc device service subservice attrs"
| "runAction svc (ExecuteUpdateSideEffects device ident ty service subservice attrs) =
     executeUpdateSideEffects svc device attrs"

subsection \<open>generateUpdateActionsNgsi1\<close>

text \<open>
  \<^verbatim>\<open>splitUpdates\<close>: the labelled loop over the attributes; the inner loop over the device's
  commands leaves with \<^verbatim>\<open>continue attributeLoop\<close> at the first command of the same name.
\<close>

fun attributeLoopNgsi1 ::
  "attribute list \<Rightarrow> attribute list \<Rightarrow> attribute list \<Rightarrow> attribute list
     \<Rightarrow> attribute list \<times> attribute list" where
  "attributeLoopNgsi1 deviceCommands [] attrs cmds = (attrs, cmds)"
| "attributeLoopNgsi1 deviceCommands (a # rest) attrs cmds =
     (if list_ex (\<lambda>command. name a = name command) deviceCommands
      then attributeLoopNgsi1 deviceCommands rest attrs (cmds @ [a])
      else attributeLoopNgsi1 deviceCommands rest (attrs @ [a]) cmds)"

definition splitUpdatesNgsi1 :: "contextElement \<Rightarrow> device \<Rightarrow> attribute list \<times> attribute list" where
  "splitUpdatesNgsi1 element device =
     (case commands device of
        Some deviceCommands \<Rightarrow> attributeLoopNgsi1 deviceCommands (attributes element) [] []
      | None \<Rightarrow> (attributes element, []))"

definition createActionsArrayNgsi1 ::
  "contextServer \<Rightarrow> headers \<Rightarrow> contextElement \<Rightarrow> attribute list \<Rightarrow> attribute list \<Rightarrow> device
     \<Rightarrow> action list" where
  "createActionsArrayNgsi1 st hdrs element attrs cmds device =
     (case updateHandler st of
        Some handler \<Rightarrow>
          [HandlerAction handler (Some (entityId element)) (Some (entityType element))
             (fiwareService hdrs) (fiwareServicepath hdrs) (map FAttribute attrs)]
      | None \<Rightarrow> [])
     @ (case commandHandler st of
          Some handler \<Rightarrow>
            (if polling device then
               [PushCommandsToQueue device (Some (entityId element)) (Some (entityType element))
                  (fiwareService hdrs) (fiwareServicepath hdrs) (map FAttribute (attributes element))]
             else
               [HandlerAction handler (Some (entityId element)) (Some (entityType element))
                  (fiwareService hdrs) (fiwareServicepath hdrs) (map FAttribute cmds)])
        | None \<Rightarrow> [])
     @ [ExecuteUpdateSideEffects device (Some (entityId element)) (Some (entityType element))
          (fiwareService hdrs) (fiwareServicepath hdrs) (map FAttribute (attributes element))]"

text \<open>
  The device is looked up by name, its group found and merged into it (the field and
  default lists passed to the merge are constants and not shown); the first error ends the
  waterfall.
\<close>

definition resolveDevice :: "services \<Rightarrow> headers \<Rightarrow> string option \<Rightarrow> js_error + device" where
  "resolveDevice svc hdrs ident =
     (case getDeviceByName svc ident (fiwareService hdrs) (fiwareServicepath hdrs) of
        Inl error \<Rightarrow> Inl error
      | Inr deviceObj \<Rightarrow>
          (case findConfigurationGroup svc deviceObj of
             Inl error \<Rightarrow> Inl error
           | Inr configuration \<Rightarrow> mergeDeviceWithConfiguration svc deviceObj configuration))"

definition generateUpdateActionsNgsi1 ::
  "contextServer \<Rightarrow> services \<Rightarrow> headers \<Rightarrow> contextElement \<Rightarrow> js_error + action list" where
  "generateUpdateActionsNgsi1 st svc hdrs element =
     (case resolveDevice svc hdrs (Some (entityId element)) of
        Inl error \<Rightarrow> Inl error
      | Inr device \<Rightarrow>
          (case splitUpdatesNgsi1 element device of
             (attrs, cmds) \<Rightarrow> Inr (createActionsArrayNgsi1 st hdrs element attrs cmds device)))"

subsection \<open>generateUpdateActionsNgsi2\<close>

fun fieldTruthy :: "field \<Rightarrow> bool" where
  "fieldTruthy (FString s) = (s \<noteq> [])"
| "fieldTruthy (FAttribute a) = True"
| "fieldTruthy f = False"

fun fieldString :: "field \<Rightarrow> string option" where
  "fieldString (FString s) = Some s"
| "fieldString f = None"

definition property :: "entity \<Rightarrow> string \<Rightarrow> field" where
  "property e k = (case map_of e k of None \<Rightarrow> FUndefined | Some f \<Rightarrow> f)"

text \<open>
  \<^verbatim>\<open>newAtt.name = i\<close>: the attribute object gets its key as name. The module is not in
  strict mode, so the assignment is ignored on a string. On \<^verbatim>\<open>null\<close> and on \<^verbatim>\<open>undefined\<close> it
  throws a \<^verbatim>\<open>TypeError\<close>.
\<close>

fun setName :: "string \<Rightarrow> field \<Rightarrow> exn + field" where
  "setName i (FAttribute a) = Inr (FAttribute (a\<lparr>name := i\<rparr>))"
| "setName i (FString s) = Inr (FString s)"
| "setName i FNull = Inl TypeError"
| "setName i FUndefined = Inl TypeError"

text \<open>
  \<^verbatim>\<open>splitUpdates\<close> has two loops over the keys of the entity. The first collects the
  commands: every key that is the name of a command of the device. The second collects the
  attributes: every key other than \<^verbatim>\<open>type\<close> and \<^verbatim>\<open>id\<close>. The result is the pair of the
  attributes and the commands, or the exception of the first assignment that throws.
\<close>

fun commandLoopNgsi2 :: "attribute list \<Rightarrow> entity \<Rightarrow> field list \<Rightarrow> exn + field list" where
  "commandLoopNgsi2 deviceCommands [] cmds = Inr cmds"
| "commandLoopNgsi2 deviceCommands ((i, v) # rest) cmds =
     (if list_ex (\<lambda>command. i = name command) deviceCommands
      then (case setName i v of
              Inl e \<Rightarrow> Inl e
            | Inr newAtt \<Rightarrow> commandLoopNgsi2 deviceCommands rest (cmds @ [newAtt]))
      else commandLoopNgsi2 deviceCommands rest cmds)"

fun attributeLoopNgsi2 :: "entity \<Rightarrow> field list \<Rightarrow> exn + field list" where
  "attributeLoopNgsi2 [] attrs = Inr attrs"
| "attributeLoopNgsi2 ((i, v) # rest) attrs =
     (if i \<noteq> ''type'' \<and> i \<noteq> ''id''
      then (case setName i v of
              Inl e \<Rightarrow> Inl e
            | Inr newAtt \<Rightarrow> attributeLoopNgsi2 rest (attrs @ [newAtt]))
      else attributeLoopNgsi2 rest attrs)"

definition splitUpdatesNgsi2 :: "entity \<Rightarrow> device \<Rightarrow> exn + field list \<times> field list" where
  "splitUpdatesNgsi2 element device =
     (case (case commands device of
              Some deviceCommands \<Rightarrow> commandLoopNgsi2 deviceCommands element []
            | None \<Rightarrow> Inr []) of
        Inl e \<Rightarrow> Inl e
      | Inr cmds \<Rightarrow>
          (case attributeLoopNgsi2 element [] of
             Inl e \<Rightarrow> Inl e
           | Inr attrs \<Rightarrow> Inr (attrs, cmds)))"

text \<open>
  The entity id and type of the request: those of the entity when both are truthy, else
  the id of the route parameter \<^verbatim>\<open>req.params.entity\<close> and no type.
\<close>

definition entityIdType :: "string option \<Rightarrow> entity \<Rightarrow> string option \<times> string option" where
  "entityIdType paramsEntity element =
     (if fieldTruthy (property element ''id'') \<and> fieldTruthy (property element ''type'')
      then (fieldString (property element ''id''), fieldString (property element ''type''))
      else if stringTruthy paramsEntity then (paramsEntity, None)
      else (None, None))"

definition createActionsArrayNgsi2 ::
  "contextServer \<Rightarrow> headers \<Rightarrow> string option \<Rightarrow> string option \<Rightarrow> field list \<Rightarrow> field list
     \<Rightarrow> device \<Rightarrow> action list" where
  "createActionsArrayNgsi2 st hdrs ident ty0 attrs cmds device =
     (let ty = (if stringTruthy ty0 then ty0 else deviceType device) in
      (case updateHandler st of
         Some handler \<Rightarrow>
           [HandlerAction handler ident ty (fiwareService hdrs) (fiwareServicepath hdrs) attrs]
       | None \<Rightarrow> [])
      @ (case commandHandler st of
           Some handler \<Rightarrow>
             (if polling device then
                [PushCommandsToQueue device ident ty (fiwareService hdrs) (fiwareServicepath hdrs) attrs]
              else
                [HandlerAction handler ident ty (fiwareService hdrs) (fiwareServicepath hdrs) cmds])
         | None \<Rightarrow> [])
      @ [ExecuteUpdateSideEffects device ident ty (fiwareService hdrs) (fiwareServicepath hdrs) attrs])"

definition generateUpdateActionsNgsi2 ::
  "contextServer \<Rightarrow> services \<Rightarrow> headers \<Rightarrow> string option \<Rightarrow> entity \<Rightarrow> failure + action list" where
  "generateUpdateActionsNgsi2 st svc hdrs paramsEntity element =
     (case entityIdType paramsEntity element of
        (ident, ty) \<Rightarrow>
          (case resolveDevice svc hdrs ident of
             Inl error \<Rightarrow> Inl (CallbackError error)
           | Inr device \<Rightarrow>
               (case splitUpdatesNgsi2 element device of
                  Inl e \<Rightarrow> Inl (Thrown e)
                | Inr (attrs, cmds) \<Rightarrow>
                    Inr (createActionsArrayNgsi2 st hdrs ident ty attrs cmds device))))"

subsection \<open>The update middlewares\<close>

text \<open>
  The waterfall of both handlers: the actions of every entity are generated, flattened
  and run in series. The route continues with the error middleware when the handler
  calls \<^verbatim>\<open>next(error)\<close>; an exception thrown on the way is not caught.
\<close>

definition handleUpdateNgsi1 ::
  "contextServer \<Rightarrow> services \<Rightarrow> headers \<Rightarrow> contextElement list \<Rightarrow> outcome" where
  "handleUpdateNgsi1 st svc hdrs contextElements =
     (if updateHandler st \<noteq> None \<or> commandHandler st \<noteq> None then
        (case asyncMap (generateUpdateActionsNgsi1 st svc hdrs) contextElements of
           Inl error \<Rightarrow> Next error
         | Inr actions \<Rightarrow>
             (case firstError (map (runAction svc) (concat actions)) of
                Some error \<Rightarrow> Next error
              | None \<Rightarrow>
                  (case createUpdateResponse contextElements of
                     Inl e \<Rightarrow> Uncaught e
                   | Inr responses \<Rightarrow> Responded 200 (ContextResponses responses))))
      else Next errorNotFound)"

definition handleUpdateNgsi2 ::
  "contextServer \<Rightarrow> services \<Rightarrow> headers \<Rightarrow> string option \<Rightarrow> entity list \<Rightarrow> outcome" where
  "handleUpdateNgsi2 st svc hdrs paramsEntity entities =
     (if updateHandler st \<noteq> None \<or> commandHandler st \<noteq> None then
        (case failing (generateUpdateActionsNgsi2 st svc hdrs paramsEntity) entities of
           Inl (CallbackError error) \<Rightarrow> Next error
         | Inl (Thrown e) \<Rightarrow> Uncaught e
         | Inr actions \<Rightarrow>
             (case firstError (map (runAction svc) (concat actions)) of
                Some error \<Rightarrow> Next error
              | None \<Rightarrow> Responded 204 NoBody))
      else Next errorNotFound)"

definition updateRouteNgsi1 ::
  "contextServer \<Rightarrow> services \<Rightarrow> headers \<Rightarrow> contextElement list \<Rightarrow> outcome" where
  "updateRouteNgsi1 st svc hdrs contextElements =
     (case handleUpdateNgsi1 st svc hdrs contextElements of
        Next error \<Rightarrow> updateErrorHandlingNgsi1 error contextElements
      | out \<Rightarrow> out)"

definition updateRouteNgsi2 ::
  "contextServer \<Rightarrow> services \<Rightarrow> headers \<Rightarrow> string option \<Rightarrow> entity list \<Rightarrow> outcome" where
  "updateRouteNgsi2 st svc hdrs paramsEntity entities =
     (case handleUpdateNgsi2 st svc hdrs paramsEntity entities of
        Next error \<Rightarrow> updateErrorHandlingNgsi2 error
      | out \<Rightarrow> out)"

subsection \<open>The notification middlewares\<close>

text \<open>
  One element of \<^verbatim>\<open>req.body.contextResponses\<close> of a v1 notification: the context element and
  \<^verbatim>\<open>statusCode.code\<close>, which \<^verbatim>\<open>checkStatus\<close> wants to be the string \<^verbatim>\<open>200\<close>.
\<close>

record notificationNgsi1 =
  notifiedElement :: contextElement
  notifiedCode :: jsval

fun applyNotificationMiddlewares ::
  "middleware list \<Rightarrow> device \<Rightarrow> field list \<Rightarrow> js_error + device \<times> field list" where
  "applyNotificationMiddlewares [] device values = Inr (device, values)"
| "applyNotificationMiddlewares (m # rest) device values =
     (case m device values of
        Inl error \<Rightarrow> Inl error
      | Inr (device', values') \<Rightarrow> applyNotificationMiddlewares rest device' values')"

definition notifyDevice ::
  "contextServer \<Rightarrow> notification_handler \<Rightarrow> device \<Rightarrow> field list \<Rightarrow> js_error + unit" where
  "notifyDevice st handler device values =
     (case applyNotificationMiddlewares (notificationMiddlewares st) device values of
        Inl error \<Rightarrow> Inl error
      | Inr (device', values') \<Rightarrow>
          (case handler device' values' of Some error \<Rightarrow> Inl error | None \<Rightarrow> Inr ()))"

definition createNotificationHandlerNgsi1 ::
  "contextServer \<Rightarrow> services \<Rightarrow> headers \<Rightarrow> notification_handler \<Rightarrow> notificationNgsi1
     \<Rightarrow> js_error + unit" where
  "createNotificationHandlerNgsi1 st svc hdrs handler contextResponse =
     (if notifiedCode contextResponse = JString ''200'' then
        (case getDeviceByName svc (Some (entityId (notifiedElement contextResponse)))
                (fiwareService hdrs) (fiwareServicepath hdrs) of
           Inl error \<Rightarrow> Inl error
         | Inr device \<Rightarrow>
             notifyDevice st handler device
               (map FAttribute (attributes (notifiedElement contextResponse))))
      else Inl (NotificationError svc (notifiedCode contextResponse)))"

definition handleNotificationNgsi1 ::
  "contextServer \<Rightarrow> services \<Rightarrow> headers \<Rightarrow> notificationNgsi1 list \<Rightarrow> outcome" where
  "handleNotificationNgsi1 st svc hdrs contextResponses =
     (case notificationHandler st of
        Some handler \<Rightarrow>
          (case asyncMap (createNotificationHandlerNgsi1 st svc hdrs handler) contextResponses of
             Inl error \<Rightarrow> Next error
           | Inr done \<Rightarrow> Responded 200 EmptyObject)
      | None \<Rightarrow> Next errorNotFound)"

text \<open>
  v2: every own key of the data element other than \<^verbatim>\<open>id\<close> and \<^verbatim>\<open>type\<close> becomes an attribute
  \<^verbatim>\<open>{type, value, name}\<close> read off the property. Reading a property of \<^verbatim>\<open>null\<close> or of
  \<^verbatim>\<open>undefined\<close> throws; a string has neither property (the record writes an absent type as
  the empty string).
\<close>

fun notifiedAttribute :: "string \<Rightarrow> field \<Rightarrow> exn + field" where
  "notifiedAttribute key (FAttribute a) =
     Inr (FAttribute \<lparr>name = key, type = type a, value = value a, expression = None, object_id = None\<rparr>)"
| "notifiedAttribute key (FString s) =
     Inr (FAttribute \<lparr>name = key, type = [], value = JUndefined, expression = None, object_id = None\<rparr>)"
| "notifiedAttribute key FNull = Inl TypeError"
| "notifiedAttribute key FUndefined = Inl TypeError"

fun notifiedAttributes :: "entity \<Rightarrow> exn + field list" where
  "notifiedAttributes [] = Inr []"
| "notifiedAttributes ((key, v) # rest) =
     (if key \<noteq> ''id'' \<and> key \<noteq> ''type'' then
        (case notifiedAttribute key v of
           Inl e \<Rightarrow> Inl e
         | Inr att \<Rightarrow> (case notifiedAttributes rest of Inl e \<Rightarrow> Inl e | Inr atts \<Rightarrow> Inr (att # atts)))
      else notifiedAttributes rest)"

definition createNotificationHandlerNgsi2 ::
  "contextServer \<Rightarrow> services \<Rightarrow> headers \<Rightarrow> notification_handler \<Rightarrow> entity \<Rightarrow> failure + unit" where
  "createNotificationHandlerNgsi2 st svc hdrs handler dataElement =
     (case notifiedAttributes dataElement of
        Inl e \<Rightarrow> Inl (Thrown e)
      | Inr atts \<Rightarrow>
          (case getDeviceByName svc (fieldString (property dataElement ''id''))
                  (fiwareService hdrs) (fiwareServicepath hdrs) of
             Inl error \<Rightarrow> Inl (CallbackError error)
           | Inr device \<Rightarrow>
               (case notifyDevice st handler device atts of
                  Inl error \<Rightarrow> Inl (CallbackError error)
                | Inr u \<Rightarrow> Inr u)))"

definition handleNotificationNgsi2 ::
  "contextServer \<Rightarrow> services \<Rightarrow> headers \<Rightarrow> entity list \<Rightarrow> outcome" where
  "handleNotificationNgsi2 st svc hdrs dataElements =
     (case notificationHandler st of
        Some handler \<Rightarrow>
          (case failing (createNotificationHandlerNgsi2 st svc hdrs handler) dataElements of
             Inl (CallbackError error) \<Rightarrow> Next error
           | Inl (Thrown e) \<Rightarrow> Uncaught e
           | Inr done \<Rightarrow> Responded 200 EmptyObject)
      | None \<Rightarrow> Next errorNotFound)"

definition notifyRouteNgsi1 ::
  "contextServer \<Rightarrow> services \<Rightarrow> headers \<Rightarrow> notificationNgsi1 list \<Rightarrow> outcome" where
  "notifyRouteNgsi1 st svc hdrs contextResponses =
     (case handleNotificationNgsi1 st svc hdrs contextResponses of
        Next error \<Rightarrow> queryErrorHandlingNgsi1 error
      | out \<Rightarrow> out)"

definition notifyRouteNgsi2 ::
  "contextServer \<Rightarrow> services \<Rightarrow> headers \<Rightarrow> entity list \<Rightarrow> outcome" where
  "notifyRouteNgsi2 st svc hdrs dataElements =
     (case handleNotificationNgsi2 st svc hdrs dataElements of
        Next error \<Rightarrow> queryErrorHandlingNgsi2 error
      | out \<Rightarrow> out)"

subsection \<open>handleQueryNgsi2\<close>

text \<open>
  An element of \<^verbatim>\<open>req.body.entities\<close> of a v2 query. The list \<open>lookups\<close> records every call
  to the device directory, in order.
\<close>

record queryEntity =
  queryId :: "string option"
  idPattern :: "string option"
  queryType :: "string option"

datatype lookup =
    GetDeviceByName "string option" string string
  | ListDevicesWithType "string option" string string
  | FindConfigurationGroup device

text \<open>
  \<^verbatim>\<open>contextElement[key] = object\<close>: the key keeps its place if the object has it, else it is
  added last; the key \<^verbatim>\<open>__proto__\<close> adds no own property. An attribute object stored under
  a key has no name of its own; the record then holds the empty name.
\<close>

fun setOwnProperty :: "entity \<Rightarrow> string \<Rightarrow> field \<Rightarrow> entity" where
  "setOwnProperty [] k f = [(k, f)]"
| "setOwnProperty ((k', f') # rest) k f =
     (if k' = k then (k, f) # rest else (k', f') # setOwnProperty rest k f)"

definition setProperty :: "entity \<Rightarrow> string \<Rightarrow> field \<Rightarrow> entity" where
  "setProperty e k f = (if k = ''__proto__'' then e else setOwnProperty e k f)"

definition optionalString :: "string option \<Rightarrow> field" where
  "optionalString s = (case s of None \<Rightarrow> FUndefined | Some t \<Rightarrow> FString t)"

definition completeAttributes :: "string list option \<Rightarrow> device option \<Rightarrow> failure + string list option" where
  "completeAttributes attrs configuration =
     (if attrs \<noteq> None \<and> attrs \<noteq> Some [] then Inr attrs
      else (case configuration of
              None \<Rightarrow> Inl (Thrown TypeError)
            | Some device \<Rightarrow>
                (case lazy device of
                   Some lazyAttributes \<Rightarrow> Inr (Some (map name lazyAttributes))
                 | None \<Rightarrow> Inr None)))"

definition addStaticAttributes :: "string list option \<Rightarrow> device option \<Rightarrow> entity \<Rightarrow> failure + entity" where
  "addStaticAttributes attrs configuration element =
     (case configuration of
        None \<Rightarrow> Inl (Thrown TypeError)
      | Some device \<Rightarrow>
          (case staticAttributes device of
             None \<Rightarrow> Inr element
           | Some statics \<Rightarrow>
               (let selectedAttributes =
                      (if attrs = None \<or> attrs = Some [] then statics
                       else filter (\<lambda>item. name item \<noteq> [] \<and> name item \<in> set (the attrs)) statics)
                in Inr (foldl (\<lambda>e att. setProperty e (name att)
                                 (FAttribute \<lparr>name = [], type = type att, value = value att,
                                              expression = None, object_id = None\<rparr>))
                          element selectedAttributes))))"

definition findWhere :: "attribute list option \<Rightarrow> string \<Rightarrow> attribute option" where
  "findWhere list n = (case list of None \<Rightarrow> None | Some xs \<Rightarrow> find (\<lambda>x. name x = n) xs)"

definition defaultQueryHandlerNgsi2 ::
  "services \<Rightarrow> string option \<Rightarrow> string option \<Rightarrow> string \<Rightarrow> string \<Rightarrow> string list option
     \<Rightarrow> lookup list \<Rightarrow> (failure + entity) \<times> lookup list" where
  "defaultQueryHandlerNgsi2 svc ident ty service subservice attrs lookups =
     (case getDeviceByName svc ident service subservice of
        Inl error \<Rightarrow> (Inl (CallbackError error), lookups @ [GetDeviceByName ident service subservice])
      | Inr ngsiDevice \<Rightarrow>
          (case attrs of
             None \<Rightarrow> (Inl (Thrown TypeError), lookups @ [GetDeviceByName ident service subservice])
           | Some names \<Rightarrow>
               (Inr (foldl (\<lambda>e n.
                       setProperty e n
                         (FAttribute
                            \<lparr>name = [],
                             type = (case findWhere (commands ngsiDevice) n of
                                       Some command \<Rightarrow> type command
                                     | None \<Rightarrow>
                                         (case findWhere (lazy ngsiDevice) n of
                                            Some lazyAttribute \<Rightarrow> type lazyAttribute
                                          | None \<Rightarrow> ''string'')),
                             value = JString [], expression = None, object_id = None\<rparr>))
                       [(''type'', optionalString ty), (''id'', optionalString ident)] names),
                lookups @ [GetDeviceByName ident service subservice])))"

text \<open>
  \<^verbatim>\<open>finishQueryForDevice\<close>: the error of \<^verbatim>\<open>findConfigurationGroup\<close> is not looked at; with an
  error the group is \<^verbatim>\<open>undefined\<close>.
\<close>

definition finishQueryForDevice ::
  "contextServer \<Rightarrow> services \<Rightarrow> headers \<Rightarrow> string list option \<Rightarrow> queryEntity \<Rightarrow> device
     \<Rightarrow> lookup list \<Rightarrow> (failure + entity) \<times> lookup list" where
  "finishQueryForDevice st svc hdrs attrs contextEntity device lookups =
     (let contextId = (if stringTruthy (queryId contextEntity) then queryId contextEntity
                       else deviceId device);
          contextType = (if stringTruthy (queryType contextEntity) then queryType contextEntity
                         else deviceType device);
          configuration = (case findConfigurationGroup svc device of
                             Inl error \<Rightarrow> None
                           | Inr g \<Rightarrow> Some g);
          lookups1 = lookups @ [FindConfigurationGroup device]
      in case completeAttributes attrs configuration of
           Inl e \<Rightarrow> (Inl e, lookups1)
         | Inr completed \<Rightarrow>
             (case (case queryHandler st of
                      Some handler \<Rightarrow>
                        ((case handler contextId contextType (fiwareService hdrs)
                                 (fiwareServicepath hdrs) completed of
                            Inl error \<Rightarrow> Inl (CallbackError error)
                          | Inr element \<Rightarrow> Inr element), lookups1)
                    | None \<Rightarrow>
                        defaultQueryHandlerNgsi2 svc contextId contextType (fiwareService hdrs)
                          (fiwareServicepath hdrs) completed lookups1) of
                (Inl e, lookups2) \<Rightarrow> (Inl e, lookups2)
              | (Inr element, lookups2) \<Rightarrow> (addStaticAttributes attrs configuration element, lookups2)))"

fun finishQueryForDevices ::
  "contextServer \<Rightarrow> services \<Rightarrow> headers \<Rightarrow> string list option \<Rightarrow> queryEntity \<Rightarrow> device list
     \<Rightarrow> lookup list \<Rightarrow> (failure + entity list) \<times> lookup list" where
  "finishQueryForDevices st svc hdrs attrs contextEntity [] lookups = (Inr [], lookups)"
| "finishQueryForDevices st svc hdrs attrs contextEntity (device # rest) lookups =
     (case finishQueryForDevice st svc hdrs attrs contextEntity device lookups of
        (Inl e, lookups1) \<Rightarrow> (Inl e, lookups1)
      | (Inr element, lookups1) \<Rightarrow>
          (case finishQueryForDevices st svc hdrs attrs contextEntity rest lookups1 of
             (Inl e, lookups2) \<Rightarrow> (Inl e, lookups2)
           | (Inr elements, lookups2) \<Rightarrow> (Inr (element # elements), lookups2)))"

text \<open>
  \<^verbatim>\<open>createQueryRequest\<close>: one device by name when the entity has an id, else the devices of
  its type. \<^verbatim>\<open>handleFindDevice\<close> does not read the error: without a result the device is not
  found. A listing with a zero count has a falsy \<^verbatim>\<open>count\<close> and is itself taken for the
  device; it has none of a device's fields.
\<close>

definition listingAsDevice :: device where
  "listingAsDevice =
     \<lparr>deviceId = None, deviceName = None, deviceType = None, commands = None, lazy = None,
      staticAttributes = None, polling = False\<rparr>"

definition createQueryRequest ::
  "contextServer \<Rightarrow> services \<Rightarrow> headers \<Rightarrow> string list option \<Rightarrow> queryEntity
     \<Rightarrow> lookup list \<Rightarrow> (failure + entity list) \<times> lookup list" where
  "createQueryRequest st svc hdrs attrs contextEntity lookups =
     (if stringTruthy (queryId contextEntity) then
        (case getDeviceByName svc (queryId contextEntity) (fiwareService hdrs) (fiwareServicepath hdrs) of
           Inl error \<Rightarrow>
             (Inl (CallbackError (DeviceNotFound svc (queryId contextEntity))),
              lookups @ [GetDeviceByName (queryId contextEntity) (fiwareService hdrs) (fiwareServicepath hdrs)])
         | Inr innerDevice \<Rightarrow>
             finishQueryForDevices st svc hdrs attrs contextEntity [innerDevice]
               (lookups @ [GetDeviceByName (queryId contextEntity) (fiwareService hdrs) (fiwareServicepath hdrs)]))
      else
        (case listDevicesWithType svc (queryType contextEntity) (fiwareService hdrs) (fiwareServicepath hdrs) of
           Inl error \<Rightarrow>
             (Inl (CallbackError (DeviceNotFound svc (queryId contextEntity))),
              lookups @ [ListDevicesWithType (queryType contextEntity) (fiwareService hdrs) (fiwareServicepath hdrs)])
         | Inr (count, devices) \<Rightarrow>
             finishQueryForDevices st svc hdrs attrs contextEntity
               (if count \<noteq> 0 then devices else [listingAsDevice])
               (lookups @ [ListDevicesWithType (queryType contextEntity) (fiwareService hdrs) (fiwareServicepath hdrs)])))"

definition handleQueryNgsi2 ::
  "contextServer \<Rightarrow> services \<Rightarrow> headers \<Rightarrow> queryEntity list \<Rightarrow> string list option
     \<Rightarrow> lookup list \<Rightarrow> outcome \<times> lookup list" where
  "handleQueryNgsi2 st svc hdrs entities attrs lookups =
     (if length entities \<noteq> 1 then
        (Next \<lparr>errorCode = Some 400, errorName = ''BadRequest'',
               errorMessage = ''more than one entity in query''\<rparr>, lookups)
      else if stringTruthy (idPattern (entities ! 0)) then
        (Next \<lparr>errorCode = Some 400, errorName = ''BadRequest'',
               errorMessage = ''idPattern usage in query''\<rparr>, lookups)
      else
        (case createQueryRequest st svc hdrs attrs
                \<lparr>queryId = queryId (entities ! 0), idPattern = None,
                 queryType = queryType (entities ! 0)\<rparr> lookups of
           (Inl (CallbackError error), lookups1) \<Rightarrow> (Next error, lookups1)
         | (Inl (Thrown e), lookups1) \<Rightarrow> (Uncaught e, lookups1)
         | (Inr result, lookups1) \<Rightarrow> (Responded 200 (Entities result), lookups1)))"

definition queryRouteNgsi2 ::
  "contextServer \<Rightarrow> services \<Rightarrow> headers \<Rightarrow> queryEntity list \<Rightarrow> string list option
     \<Rightarrow> lookup list \<Rightarrow> outcome \<times> lookup list" where
  "queryRouteNgsi2 st svc hdrs entities attrs lookups =
     (case handleQueryNgsi2 st svc hdrs entities attrs lookups of
        (Next error, lookups1) \<Rightarrow> (queryErrorHandlingNgsi2 error, lookups1)
      | (out, lookups1) \<Rightarrow> (out, lookups1))"

section \<open>What the filter of processExpressionAttributes keeps\<close>

text \<open>
  From the code: \<open>checked\<close> holds of an item for which the filter gets to the evaluation,
  that is, whose expression is there, is not empty, tokenizes, and has \<open>validContext\<close>
  true (each identifier token is a key of the context or has an answer from
  \<^verbatim>\<open>getTransform\<close>).
\<close>

definition checked :: "jexl \<Rightarrow> expr_context \<Rightarrow> attribute \<Rightarrow> bool" where
  "checked J ctx item =
     (case expression item of
        None \<Rightarrow> False
      | Some e \<Rightarrow>
          e \<noteq> [] \<and>
          (case tokenize J e of
             None \<Rightarrow> False
           | Some tokens \<Rightarrow>
               list_all (\<lambda>t. tokenType t = ''identifier'' \<longrightarrow>
                              ctx (tokenValue t) \<noteq> None \<or> isTransform J (tokenValue t)) tokens))"

text \<open>
  From the words of the specification, for comparison with the code. It speaks of items
  "carrying a non-empty expression whose identifiers are all valid against the context",
  a valid identifier being a key of the context or a registered transform name: that is
  \<open>inScope\<close>. \<open>invalidItem\<close> is an item whose non-empty expression does not tokenize, or is
  in scope and does not evaluate. \<open>namesInherited\<close> is an item with an identifier that is
  not valid in this sense and is the name of a member of \<^verbatim>\<open>Object.prototype\<close>.
\<close>

definition validIdentifier :: "jexl \<Rightarrow> expr_context \<Rightarrow> string \<Rightarrow> bool" where
  "validIdentifier J ctx n = (ctx n \<noteq> None \<or> transforms J n \<noteq> None)"

definition inScope :: "jexl \<Rightarrow> expr_context \<Rightarrow> attribute \<Rightarrow> bool" where
  "inScope J ctx item =
     (case expression item of
        None \<Rightarrow> False
      | Some e \<Rightarrow>
          e \<noteq> [] \<and>
          (case tokenize J e of
             None \<Rightarrow> False
           | Some tokens \<Rightarrow>
               list_all (\<lambda>t. tokenType t = ''identifier'' \<longrightarrow> validIdentifier J ctx (tokenValue t))
                 tokens))"

definition invalidItem :: "jexl \<Rightarrow> expr_context \<Rightarrow> attribute \<Rightarrow> bool" where
  "invalidItem J ctx item =
     (case expression item of
        None \<Rightarrow> False
      | Some e \<Rightarrow>
          e \<noteq> [] \<and>
          (tokenize J e = None \<or> (inScope J ctx item \<and> evalSync J (Some e) ctx = None)))"

definition namesInherited :: "jexl \<Rightarrow> expr_context \<Rightarrow> attribute \<Rightarrow> bool" where
  "namesInherited J ctx item =
     (case expression item of
        None \<Rightarrow> False
      | Some e \<Rightarrow>
          e \<noteq> [] \<and>
          (case tokenize J e of
             None \<Rightarrow> False
           | Some tokens \<Rightarrow>
               list_ex (\<lambda>t. tokenType t = ''identifier'' \<and> \<not> validIdentifier J ctx (tokenValue t)
                              \<and> tokenValue t \<in> set objectPrototype) tokens))"

section \<open>Sample data\<close>

text \<open>Concrete attributes, a context, a device, a directory and handlers to run the model on.\<close>

definition attr :: "string \<Rightarrow> string \<Rightarrow> jsval \<Rightarrow> attribute" where
  "attr n t v = \<lparr>name = n, type = t, value = v, expression = None, object_id = None\<rparr>"

definition derived :: "string \<Rightarrow> string \<Rightarrow> string option \<Rightarrow> string option \<Rightarrow> attribute" where
  "derived n t e oid = \<lparr>name = n, type = t, value = JUndefined, expression = e, object_id = oid\<rparr>"

definition sampleContext :: expr_context where
  "sampleContext = [''a'' \<mapsto> JNumber (Num 2), ''b'' \<mapsto> JNumber (Num 3)]"

definition sampleHeaders :: headers where
  "sampleHeaders = \<lparr>fiwareService = ''smartgondor'', fiwareServicepath = ''/gardens''\<rparr>"

definition sampleDevice :: device where
  "sampleDevice =
     \<lparr>deviceId = Some ''d1'', deviceName = Some ''d1'', deviceType = Some ''Robot'',
      commands = Some [attr ''move'' ''command'' JUndefined], lazy = None,
      staticAttributes = None, polling = False\<rparr>"

definition notFound :: "string option \<Rightarrow> js_error" where
  "notFound ident =
     \<lparr>errorCode = Some 404, errorName = ''DEVICE_NOT_FOUND'', errorMessage = ''No device was found''\<rparr>"

definition sampleServices :: services where
  "sampleServices =
     \<lparr>getDeviceByName =
        (\<lambda>ident service subservice. if ident = Some ''d1'' then Inr sampleDevice else Inl (notFound ident)),
      findConfigurationGroup = (\<lambda>device. Inr device),
      mergeDeviceWithConfiguration = (\<lambda>device configuration. Inr device),
      listDevicesWithType = (\<lambda>ty service subservice. Inr (1, [sampleDevice])),
      commandsAdd = (\<lambda>service subservice ident command. None),
      ngsiUpdate = (\<lambda>device attrs. None),
      DeviceNotFound = notFound,
      NotificationError =
        (\<lambda>c. \<lparr>errorCode = Some 400, errorName = ''NOTIFICATION_ERROR'', errorMessage = ''Notification error''\<rparr>),
      COMMAND_STATUS = ''commandStatus''\<rparr>"

definition acceptUpdate :: update_handler where
  "acceptUpdate ident ty service subservice attrs = None"

definition answerQuery :: query_handler where
  "answerQuery ident ty service subservice attrs = Inr []"

definition acceptNotification :: notification_handler where
  "acceptNotification device values = None"

definition passOn :: middleware where
  "passOn device values = Inr (device, values)"

definition sampleServer :: contextServer where
  "sampleServer =
     \<lparr>notificationMiddlewares = [passOn], updateHandler = Some acceptUpdate,
      commandHandler = Some acceptUpdate, queryHandler = Some answerQuery,
      notificationHandler = Some acceptNotification\<rparr>"

section \<open>Properties of the expression plugin\<close>

subsection \<open>Rounding\<close>

lemma bitLength_bounds:
  "0 < n \<Longrightarrow> 0 < bitLength n \<and> 2 ^ nat (bitLength n - 1) \<le> n \<and> n < 2 ^ nat (bitLength n)"
proof (induction n rule: bitLength.induct)
  case (1 n)
  show ?case
  proof (cases "n = 1")
    case True
    have "bitLength (1 div 2) = 0"
      by (subst bitLength.simps) simp
    then have "bitLength 1 = 1"
      by (subst bitLength.simps) simp
    with True show ?thesis
      by simp
  next
    case False
    with "1.prems" have h: "0 < n div 2"
      by simp
    from "1.IH" [OF "1.prems" h]
    have b: "0 < bitLength (n div 2)"
      and l: "2 ^ nat (bitLength (n div 2) - 1) \<le> n div 2"
      and u: "n div 2 < 2 ^ nat (bitLength (n div 2))"
      by simp_all
    have e: "bitLength n = 1 + bitLength (n div 2)"
      using "1.prems" by (subst bitLength.simps) simp
    from b have p: "(2 :: int) ^ nat (bitLength (n div 2)) = 2 * 2 ^ nat (bitLength (n div 2) - 1)"
      by (metis Suc_nat_eq_nat_zadd1 add.commute diff_add_cancel diff_ge_0_iff_ge
            int_one_le_iff_zero_less power_Suc)
    from b have q: "(2 :: int) ^ nat (1 + bitLength (n div 2)) = 2 * 2 ^ nat (bitLength (n div 2))"
      by (simp add: nat_add_distrib)
    from l have "2 * 2 ^ nat (bitLength (n div 2) - 1) \<le> n"
      by linarith
    moreover from u have "n < 2 * 2 ^ nat (bitLength (n div 2))"
      by linarith
    ultimately show ?thesis
      using b by (simp add: e p q)
  qed
qed

lemma scale_powi: "scale 2 e = 2 powi e"
  by (simp add: scale_def power_int_def inverse_eq_divide power_one_over)

text \<open>\<open>binaryExponent\<close> is the exponent of the power of 2 at or below a positive rational.\<close>

lemma binaryExponent_bounds:
  assumes "0 < a"
  shows "2 powi binaryExponent a \<le> a" and "a < 2 powi (binaryExponent a + 1)"
proof -
  obtain p q where pq: "quotient_of a = (p, q)"
    by (cases "quotient_of a")
  then have q0: "0 < q" and a: "a = of_int p / of_int q"
    by (simp_all add: quotient_of_denom_pos quotient_of_div)
  with assms have p0: "0 < p"
    by (simp add: zero_less_divide_iff)
  let ?e = "bitLength p - bitLength q"
  from bitLength_bounds [OF p0] have
    bp: "0 < bitLength p" and pl: "2 ^ nat (bitLength p - 1) \<le> p" and pu: "p < 2 ^ nat (bitLength p)"
    by simp_all
  from bitLength_bounds [OF q0] have
    bq: "0 < bitLength q" and ql: "2 ^ nat (bitLength q - 1) \<le> q" and qu: "q < 2 ^ nat (bitLength q)"
    by simp_all
  have low: "(2 :: rat) powi (?e - 1) < a"
  proof -
    have "(2 :: rat) powi (?e - 1) = 2 powi (bitLength p - 1) / 2 powi bitLength q"
      by (simp add: power_int_diff)
    also have "\<dots> = of_int (2 ^ nat (bitLength p - 1)) / of_int (2 ^ nat (bitLength q))"
      using bp bq by (simp add: power_int_def)
    also have "\<dots> \<le> of_int p / of_int (2 ^ nat (bitLength q))"
      using pl by (intro divide_right_mono) (simp_all del: of_int_power)
    also have "\<dots> < of_int p / of_int q"
      using qu q0 p0 by (intro divide_strict_left_mono mult_pos_pos) (simp_all del: of_int_power)
    finally show ?thesis
      by (simp add: a)
  qed
  have high: "a < (2 :: rat) powi (?e + 1)"
  proof -
    have "of_int p / of_int q < (of_int (2 ^ nat (bitLength p)) :: rat) / of_int q"
      using pu q0 by (intro divide_strict_right_mono) (simp_all del: of_int_power)
    also have "\<dots> \<le> of_int (2 ^ nat (bitLength p)) / of_int (2 ^ nat (bitLength q - 1))"
      using ql q0 by (intro divide_left_mono mult_pos_pos) (simp_all del: of_int_power)
    also have "\<dots> = 2 powi bitLength p / 2 powi (bitLength q - 1)"
      using bp bq by (simp add: power_int_def)
    also have "\<dots> = 2 powi (?e + 1)"
      by (simp add: power_int_diff [symmetric] algebra_simps)
    finally show ?thesis
      by (simp add: a)
  qed
  have b: "binaryExponent a = (if 2 powi ?e \<le> a then ?e else ?e - 1)"
    by (simp add: binaryExponent_def pq scale_powi)
  show "2 powi binaryExponent a \<le> a"
    using low by (simp add: b)
  show "a < 2 powi (binaryExponent a + 1)"
    using high by (simp add: b)
qed

text \<open>A value of at most half the least positive number, \<open>2 ^ -1074\<close>, rounds to 0.\<close>

lemma toBinary64_underflow:
  assumes "\<bar>x\<bar> \<le> 1 / 2 ^ 1075"
  shows "toBinary64 x = Num 0"
proof (cases "x = 0")
  case True
  then show ?thesis
    by (simp add: toBinary64_def)
next
  case False
  let ?a = "\<bar>x\<bar>"
  define c :: rat where "c = 2 ^ 1074"
  have c0: "0 < c"
    by (simp add: c_def)
  have c2: "(2 :: rat) ^ 1075 = 2 * c"
    by (simp add: c_def)
  from False have a0: "0 < ?a"
    by simp
  have "(2 :: rat) powi (- 1075) = 1 / 2 ^ 1075"
    by (simp add: power_int_def inverse_eq_divide power_one_over)
  with binaryExponent_bounds(1) [OF a0] assms
  have "(2 :: rat) powi binaryExponent ?a \<le> 2 powi (- 1075)"
    by linarith
  then have "binaryExponent ?a \<le> - 1075"
    using power_int_strict_increasing [of "- 1075" "binaryExponent ?a" "2 :: rat"]
    by (cases "binaryExponent ?a \<le> - 1075") simp_all
  then have e: "max (binaryExponent ?a) (- 1022) = - 1022"
    by simp
  have s: "scale 2 (- 1074) = 1 / c"
    by (simp add: scale_def c_def)
  from assms have "?a \<le> 1 / (2 * c)"
    by (simp only: c2)
  with c0 have h: "?a * c \<le> 1 / 2"
    by (simp add: field_simps)
  from a0 c0 have p: "0 < ?a * c"
    by simp
  from h p have f: "\<lfloor>?a * c\<rfloor> = 0"
    by (simp add: floor_eq_iff)
  from h have "roundHalfEven (?a * c) = 0"
    by (simp add: roundHalfEven_def f Let_def)
  then have m: "roundHalfEven (?a / scale 2 (- 1022 - 52)) = 0"
    by (simp add: s)
  from False show ?thesis
    unfolding toBinary64_def Let_def e m by simp
qed

text \<open>A value of \<open>2 ^ 1024\<close> or more rounds to an infinity.\<close>

lemma toBinary64_overflow:
  assumes "2 ^ 1024 \<le> \<bar>x\<bar>"
  shows "toBinary64 x = (if x < 0 then NegInfinity else Infinity)"
proof -
  let ?a = "\<bar>x\<bar>"
  have p: "(0 :: rat) < 2 ^ 1024"
    by simp
  with assms have a0: "0 < ?a"
    by linarith
  then have x0: "x \<noteq> 0"
    by simp
  have "(2 :: rat) powi 1024 = 2 ^ 1024"
    by (simp add: power_int_def)
  with binaryExponent_bounds(2) [OF a0] assms
  have "(2 :: rat) powi 1024 < 2 powi (binaryExponent ?a + 1)"
    by linarith
  then have "1024 < binaryExponent ?a + 1"
    using power_int_increasing [of "binaryExponent ?a + 1" 1024 "2 :: rat"]
    by (cases "1024 < binaryExponent ?a + 1") simp_all
  then have e: "(1024 \<le> max (binaryExponent ?a) (- 1022) \<or> P) = True" for P
    by simp
  from x0 show ?thesis
    unfolding toBinary64_def Let_def e by simp
qed

subsection \<open>Concrete values of the built-ins\<close>

text \<open>Values the proofs below use.\<close>

lemma parseInt_21: "parseInt (JString ''21'') = Num 21"
  by code_simp

lemma parseInt_21_5: "parseInt (JString ''21.5'') = Num 21"
  by code_simp

lemma parseInt_0_5: "parseInt (JString ''0.5'') = Num 0"
  by code_simp

lemma parseFloat_0_5: "parseFloat (JString ''0.5'') = Num (1 / 2)"
  by code_simp

lemma parseInt_true: "parseInt (JString ''true'') = NaN"
  by code_simp

lemma parseFloat_true: "parseFloat (JString ''true'') = NaN"
  by code_simp

lemma parseFloat_false: "parseFloat (JString ''false'') = NaN"
  by code_simp

text \<open>
  The model against the language on known cases: a prefix is parsed and the rest ignored;
  a hexadecimal prefix counts for \<^verbatim>\<open>parseInt\<close> and for \<^verbatim>\<open>Number\<close>, not for \<^verbatim>\<open>parseFloat\<close>; a
  number is first turned into its string, so that \<^verbatim>\<open>parseInt(0.0000005)\<close> is 5 and
  \<^verbatim>\<open>parseInt(1e21)\<close> is 1; an integer beyond \<open>2 ^ 53\<close> is rounded.
\<close>

lemma parse_examples:
  "parseInt (JString ''  -12abc'') = Num (- 12)"
  "parseInt (JString ''0x1F'') = Num 31"
  "parseFloat (JString ''0x1F'') = Num 0"
  "parseFloat (JString ''21.5'') = Num (43 / 2)"
  "parseFloat (JString ''.5e1x'') = Num 5"
  "parseFloat (JString ''-Infinity'') = NegInfinity"
  "parseInt (JString []) = NaN"
  "parseInt (JNumber (toBinary64 (1 / 2000000))) = Num 5"
  "parseInt (JNumber (Num (10 ^ 21))) = Num 1"
  "parseInt (JBool True) = NaN"
  "parseInt (JString ''9007199254740993'') = Num 9007199254740992"
  "parseFloat (JString ''0.1'') = Num (3602879701896397 / 36028797018963968)"
  by code_simp+

text \<open>
  A string whose value is below half the least positive number parses to 0, and one whose
  value is beyond the largest number parses to an infinity.
\<close>

lemma parseFloat_underflow: "parseFloat (JString ''0.1e-400'') = Num 0"
proof -
  have "scanUnsignedDecimal ''0.1e-400'' = Some (1 / 10 * scale 10 (- 400), [])"
    by code_simp
  then have "parseFloat (JString ''0.1e-400'') = toBinary64 (1 / 10 * scale 10 (- 400))"
    by (simp add: parseFloat_def scanDecimal_def isWhiteSpace_def)
  moreover have "\<bar>1 / 10 * scale 10 (- 400)\<bar> \<le> 1 / 2 ^ 1075"
    by (simp add: scale_def)
  ultimately show ?thesis
    by (simp only: toBinary64_underflow)
qed

lemma parseFloat_overflow: "parseFloat (JString ''1e400'') = Infinity"
proof -
  have "scanUnsignedDecimal ''1e400'' = Some (1 * scale 10 400, [])"
    by code_simp
  then have "parseFloat (JString ''1e400'') = toBinary64 (1 * scale 10 400)"
    by (simp add: parseFloat_def scanDecimal_def isWhiteSpace_def)
  moreover have "2 ^ 1024 \<le> \<bar>1 * scale 10 400\<bar>"
    by (simp add: scale_def)
  ultimately show ?thesis
    by (simp add: toBinary64_overflow scale_def)
qed

lemma ToString_examples:
  "ToString (JNumber (Num (43 / 2))) = ''21.5''"
  "ToString (JNumber (Num (- 1 / 2))) = ''-0.5''"
  "ToString (JNumber (Num 100)) = ''100''"
  "ToString (JNumber (toBinary64 (1 / 10))) = ''0.1''"
  "ToString (JNumber (toBinary64 (1 / 1000000))) = ''0.000001''"
  "ToString (JNumber (toBinary64 (1 / 2000000))) = ''5e-7''"
  "ToString (JNumber (Num (10 ^ 21))) = ''1e+21''"
  "ToString (JNumber (toBinary64 (10 ^ 23))) = ''1e+23''"
  "ToString (JNumber (Num 123456789012345680000)) = ''123456789012345680000''"
  "ToString (JNumber (Num 9007199254740992)) = ''9007199254740992''"
  by code_simp+

lemma ToNumber_examples:
  "ToNumber (JString '' 21.5 '') = Num (43 / 2)"
  "ToNumber (JString []) = Num 0"
  "ToNumber (JString ''0x1F'') = Num 31"
  "ToNumber (JString ''12a'') = NaN"
  "ToNumber (JString ''a.b'') = NaN"
  "ToNumber JNull = Num 0"
  "ToNumber JUndefined = NaN"
  by code_simp+

lemma numTruthy_iff: "numTruthy x \<longleftrightarrow> x \<noteq> NaN \<and> x \<noteq> Num 0"
  by (cases x) simp_all

subsection \<open>extractContext\<close>

lemma coercedValue_string:
  "coercedValue (JString s) =
     (if numTruthy (parseInt (JString s)) then JNumber (parseInt (JString s))
      else if numTruthy (parseFloat (JString s)) then JNumber (parseFloat (JString s))
      else if s = ''true'' then JBool True
      else if s = ''false'' then JBool False
      else JString s)"
  by (simp add: coercedValue_def)

text \<open>
  For a name other than \<^verbatim>\<open>__proto__\<close> the context holds the value of the last attribute of
  that name.
\<close>

lemma extractContextFrom_lookup:
  "n \<noteq> ''__proto__'' \<Longrightarrow>
   extractContextFrom xs ctx bare n =
     (if filter (\<lambda>a. name a = n) xs = [] then ctx n
      else Some (coercedValue (value (last (filter (\<lambda>a. name a = n) xs)))))"
  by (induction xs arbitrary: ctx bare) auto

lemma extractContext_integer_example:
  "extractContext [attr ''t'' ''Number'' (JString ''21'')] = [''t'' \<mapsto> JNumber (Num 21)]"
  by (simp add: extractContext_def attr_def coercedValue_string parseInt_21)

lemma extractContext_boolean_example:
  "extractContext [attr ''b'' ''Boolean'' (JString ''true'')] = [''b'' \<mapsto> JBool True]"
  by (simp add: extractContext_def attr_def coercedValue_string parseInt_true parseFloat_true)

lemma extractContext_fraction_below_one:
  "extractContext [attr ''f'' ''Number'' (JString ''0.5'')] = [''f'' \<mapsto> JNumber (Num (1 / 2))]"
  by (simp add: extractContext_def attr_def coercedValue_string parseInt_0_5 parseFloat_0_5)

text \<open>
  Claim C3. The claim wants \<^verbatim>\<open>{name: "f", value: "21.5"}\<close> to give \<^verbatim>\<open>{f: 21.5}\<close>. The code
  tests \<^verbatim>\<open>Number.parseInt\<close> first; \<^verbatim>\<open>parseInt("21.5")\<close> is 21, which is truthy, so the
  context binds \<open>f\<close> to the integer 21 and the fraction is lost. The float branch is
  reached only when the integer parse is 0 or \<open>NaN\<close>, as for \<^verbatim>\<open>"0.5"\<close>. (\<^verbatim>\<open>"21"\<close> gives 21 and
  \<^verbatim>\<open>"true"\<close> gives \<open>true\<close>, as claimed: the examples above.)
\<close>

theorem extractContext_float_truncated:
  "extractContext [attr ''f'' ''Number'' (JString ''21.5'')] = [''f'' \<mapsto> JNumber (Num 21)]"
  by (simp add: extractContext_def attr_def coercedValue_string parseInt_21_5)

text \<open>
  The name \<^verbatim>\<open>__proto__\<close>: an entry of that name binds nothing while the context has its
  prototype; after an entry of that name with the value \<^verbatim>\<open>null\<close> a further one makes a key.
\<close>

lemma extractContext_proto_examples:
  "extractContext [attr ''__proto__'' ''Text'' (JString ''x'')] ''__proto__'' = None"
  "extractContext [attr ''__proto__'' ''Text'' JNull] ''__proto__'' = None"
  "extractContext [attr ''__proto__'' ''Text'' JNull, attr ''__proto__'' ''Text'' (JString ''x'')]
     ''__proto__'' = Some (JString ''x'')"
  by code_simp+

text \<open>
  Claim C4, as amended: when the list holds one or more entries of a name other than
  \<^verbatim>\<open>__proto__\<close>, the context binds the name to the value coerced from the last of them (each
  assignment \<^verbatim>\<open>context[name] = value\<close> replaces the one before). Nothing is stated of the
  name \<^verbatim>\<open>__proto__\<close>.
\<close>

theorem extractContext_last_wins:
  assumes "filter (\<lambda>a. name a = n) attributeList \<noteq> []" and "n \<noteq> ''__proto__''"
  shows "extractContext attributeList n =
           Some (coercedValue (value (last (filter (\<lambda>a. name a = n) attributeList))))"
  using assms by (simp add: extractContext_def extractContextFrom_lookup)

theorem extractContext_last_wins_witness:
  "extractContext [attr ''t'' ''Number'' (JString ''1''), attr ''t'' ''Number'' (JString ''2'')] ''t''
     = Some (JNumber (Num 2))"
proof -
  let ?xs = "[attr ''t'' ''Number'' (JString ''1''), attr ''t'' ''Number'' (JString ''2'')]"
  have "filter (\<lambda>a. name a = ''t'') ?xs \<noteq> []" and "''t'' \<noteq> ''__proto__''"
    by code_simp+
  from extractContext_last_wins [OF this]
  have "extractContext ?xs ''t''
          = Some (coercedValue (value (last (filter (\<lambda>a. name a = ''t'') ?xs))))" .
  moreover have "coercedValue (value (last (filter (\<lambda>a. name a = ''t'') ?xs))) = JNumber (Num 2)"
    by code_simp
  ultimately show ?thesis
    by simp
qed

text \<open>
  Claim C4 as stated fails: with two entries named \<open>t\<close>, of values \<^verbatim>\<open>"1"\<close> and \<^verbatim>\<open>"2"\<close>, the
  context does not bind \<open>t\<close> to the value coerced from the first; it binds \<open>t\<close> to 2. And
  two entries named \<^verbatim>\<open>__proto__\<close>, of the same values, bind neither value.
\<close>

theorem extractContext_first_wins_counterexample:
  "extractContext [attr ''t'' ''Number'' (JString ''1''), attr ''t'' ''Number'' (JString ''2'')] ''t''
     \<noteq> Some (coercedValue (value (attr ''t'' ''Number'' (JString ''1''))))
   \<and> extractContext [attr ''t'' ''Number'' (JString ''1''), attr ''t'' ''Number'' (JString ''2'')] ''t''
       = Some (JNumber (Num 2))
   \<and> extractContext [attr ''__proto__'' ''Number'' (JString ''1''),
                      attr ''__proto__'' ''Number'' (JString ''2'')] ''__proto__''
       = None"
  by code_simp

text \<open>The parses read the string of the value.\<close>

lemma parseFloat_ToString: "parseFloat v = parseFloat (JString (ToString v))"
  by (simp add: parseFloat_def)

lemma coercedValue_zero:
  assumes "parseFloat v = Num 0" and "parseInt v = Num 0 \<or> parseInt v = NaN"
  shows "coercedValue v = v"
proof -
  from assms(1) have "parseFloat (JString (ToString v)) \<noteq> NaN"
    by (simp add: parseFloat_ToString [symmetric])
  then have "ToString v \<noteq> ''true''" and "ToString v \<noteq> ''false''"
    using parseFloat_true parseFloat_false by auto
  with assms show ?thesis
    by (auto simp: coercedValue_def)
qed

lemma coercedValue_number:
  assumes "coercedValue v = JNumber x"
  shows "v = JNumber x \<or> (x \<noteq> Num 0 \<and> x \<noteq> NaN \<and> (x = parseInt v \<or> x = parseFloat v))"
  using assms by (auto simp: coercedValue_def numTruthy_iff split: if_splits)

text \<open>
  Claim C10, as amended. Let \<open>v\<close> be the raw value of the attribute that decides the name
  \<open>n\<close>: the last of that name, for a name other than \<^verbatim>\<open>__proto__\<close>. If \<open>v\<close> parses to zero
  (\<^verbatim>\<open>parseFloat\<close> gives 0, \<^verbatim>\<open>parseInt\<close> gives 0 or \<open>NaN\<close>), the context binds \<open>n\<close> to \<open>v\<close>
  itself: to the string for a string such as \<^verbatim>\<open>"0"\<close>, and to the number 0 only if \<open>v\<close> is
  the number 0. And whenever the context binds \<open>n\<close> to a number that is not the raw value
  itself, that number is neither 0 nor \<open>NaN\<close> and is the integer or the float parse of
  \<open>v\<close>.
\<close>

theorem extractContext_zero_kept:
  assumes "filter (\<lambda>a. name a = n) attributeList \<noteq> []" and "n \<noteq> ''__proto__''"
    and "v = value (last (filter (\<lambda>a. name a = n) attributeList))"
  shows "(parseFloat v = Num 0 \<and> (parseInt v = Num 0 \<or> parseInt v = NaN)
            \<longrightarrow> extractContext attributeList n = Some v)
       \<and> (\<forall>x. extractContext attributeList n = Some (JNumber x) \<longrightarrow>
             v = JNumber x \<or>
             (x \<noteq> Num 0 \<and> x \<noteq> NaN \<and> (x = parseInt v \<or> x = parseFloat v)))"
proof -
  have e: "extractContext attributeList n = Some (coercedValue v)"
    using assms by (simp add: extractContext_def extractContextFrom_lookup)
  show ?thesis
    using coercedValue_zero [of v] coercedValue_number [of v] by (auto simp: e)
qed

theorem extractContext_zero_kept_witness:
  "extractContext [attr ''z'' ''Number'' (JString ''0'')] ''z'' = Some (JString ''0'')
   \<and> extractContext [attr ''y'' ''Number'' (JString ''0.0'')] ''y'' = Some (JString ''0.0'')
   \<and> extractContext [attr ''u'' ''Number'' (JString ''0.1e-400'')] ''u'' = Some (JString ''0.1e-400'')
   \<and> extractContext [attr ''t'' ''Number'' (JString ''21'')] ''t'' = Some (JNumber (Num 21))
   \<and> Num 21 \<noteq> Num 0 \<and> Num 21 \<noteq> NaN"
proof -
  let ?z = "[attr ''z'' ''Number'' (JString ''0'')]"
  let ?y = "[attr ''y'' ''Number'' (JString ''0.0'')]"
  let ?u = "[attr ''u'' ''Number'' (JString ''0.1e-400'')]"
  let ?t = "[attr ''t'' ''Number'' (JString ''21'')]"
  have z1: "filter (\<lambda>a. name a = ''z'') ?z \<noteq> []"
    and z0: "''z'' \<noteq> ''__proto__''"
    and z2: "JString ''0'' = value (last (filter (\<lambda>a. name a = ''z'') ?z))"
    and z3: "parseFloat (JString ''0'') = Num 0
               \<and> (parseInt (JString ''0'') = Num 0 \<or> parseInt (JString ''0'') = NaN)"
    by code_simp+
  have y1: "filter (\<lambda>a. name a = ''y'') ?y \<noteq> []"
    and y0: "''y'' \<noteq> ''__proto__''"
    and y2: "JString ''0.0'' = value (last (filter (\<lambda>a. name a = ''y'') ?y))"
    and y3: "parseFloat (JString ''0.0'') = Num 0
               \<and> (parseInt (JString ''0.0'') = Num 0 \<or> parseInt (JString ''0.0'') = NaN)"
    by code_simp+
  have u1: "filter (\<lambda>a. name a = ''u'') ?u \<noteq> []"
    and u0: "''u'' \<noteq> ''__proto__''"
    and u2: "JString ''0.1e-400'' = value (last (filter (\<lambda>a. name a = ''u'') ?u))"
    and u4: "parseInt (JString ''0.1e-400'') = Num 0 \<or> parseInt (JString ''0.1e-400'') = NaN"
    by code_simp+
  from u4 have u3: "parseFloat (JString ''0.1e-400'') = Num 0
               \<and> (parseInt (JString ''0.1e-400'') = Num 0 \<or> parseInt (JString ''0.1e-400'') = NaN)"
    by (simp add: parseFloat_underflow)
  have t1: "filter (\<lambda>a. name a = ''t'') ?t \<noteq> []"
    and t0: "''t'' \<noteq> ''__proto__''"
    and t2: "JString ''21'' = value (last (filter (\<lambda>a. name a = ''t'') ?t))"
    and t3: "extractContext ?t ''t'' = Some (JNumber (Num 21))"
    and t4: "JString ''21'' \<noteq> JNumber (Num 21)"
    by code_simp+
  from extractContext_zero_kept [OF z1 z0 z2] z3
  have "extractContext ?z ''z'' = Some (JString ''0'')"
    by blast
  moreover from extractContext_zero_kept [OF y1 y0 y2] y3
  have "extractContext ?y ''y'' = Some (JString ''0.0'')"
    by blast
  moreover from extractContext_zero_kept [OF u1 u0 u2] u3
  have "extractContext ?u ''u'' = Some (JString ''0.1e-400'')"
    by blast
  moreover from extractContext_zero_kept [OF t1 t0 t2] t3 t4
  have "Num 21 \<noteq> Num 0 \<and> Num 21 \<noteq> NaN"
    by blast
  ultimately show ?thesis
    using t3 by simp
qed

text \<open>
  Claim C10 as stated fails. The number 0 parses to zero and the context binds the
  variable to the number 0. An attribute that is not the last of its name does not decide
  the binding: \<open>z\<close> with the values \<^verbatim>\<open>"0"\<close> and then \<^verbatim>\<open>"5"\<close> is bound to 5. And an attribute
  named \<^verbatim>\<open>__proto__\<close> with the value \<^verbatim>\<open>"0"\<close> binds nothing.
\<close>

theorem extractContext_zero_counterexample:
  "parseInt (JNumber (Num 0)) = Num 0 \<and> parseFloat (JNumber (Num 0)) = Num 0
   \<and> extractContext [attr ''z'' ''Number'' (JNumber (Num 0))] ''z'' = Some (JNumber (Num 0))
   \<and> extractContext [attr ''z'' ''Number'' (JString ''0''), attr ''z'' ''Number'' (JString ''5'')] ''z''
       = Some (JNumber (Num 5))
   \<and> extractContext [attr ''__proto__'' ''Number'' (JString ''0'')] ''__proto__'' = None"
  by code_simp

subsection \<open>expressionApplier\<close>

lemma isFloat_not_null:
  "v \<noteq> JNull \<Longrightarrow> isFloat v = Inr (\<not> isNaN v \<and> CHR ''.'' \<in> set (ToString v))"
  by (cases v) (simp_all add: isFloat_def isNaN_def)

lemma isFloat_null: "isFloat JNull = Inl TypeError"
  by (simp add: isFloat_def isNaN_def)

lemma stringTruthy_iff: "stringTruthy f \<longleftrightarrow> f \<noteq> None \<and> f \<noteq> Some []"
  by (cases f) (simp_all add: stringTruthy_def)

text \<open>The result does not depend on the evaluations made before.\<close>

lemma expressionApplier_fst:
  "fst (expressionApplier J ngsi2 ctx a evs) = fst (expressionApplier J ngsi2 ctx a [])"
  by (simp add: expressionApplier_def applyExpression_def Let_def
           split: option.splits sum.splits bool.splits)

lemma expressionApplier_evaluates_once:
  "snd (expressionApplier J ngsi2 ctx a evs) = evs @ [expression a]"
  by (simp add: expressionApplier_def applyExpression_def Let_def
           split: option.splits sum.splits bool.splits)

lemma expressionApplier_result:
  assumes ev: "evalSync J (expression a) ctx = Some v"
    and nn: "type a = ''Number'' \<longrightarrow> v \<noteq> JNull"
  shows "fst (expressionApplier J ngsi2 ctx a evs) =
     Inr \<lparr>name = name a, type = type a,
          value =
            (if type a = ''Number'' \<and> \<not> isNaN v \<and> CHR ''.'' \<in> set (ToString v)
               then JNumber (parseFloat v)
             else if type a = ''Number'' \<and> parseInt v \<noteq> NaN \<and> parseInt v \<noteq> Num 0
               then JNumber (parseInt v)
             else if type a = ''Boolean'' then JBool (v = JString ''true'' \<or> v = JString ''1'')
             else if type a = ''None'' then JNull
             else JString (ToString v)),
          expression = None,
          object_id =
            (if ngsi2 \<and> object_id a \<noteq> None \<and> object_id a \<noteq> Some [] then object_id a else None)\<rparr>"
proof (cases "type a = ''Number''")
  case True
  with nn have "isFloat v = Inr (\<not> isNaN v \<and> CHR ''.'' \<in> set (ToString v))"
    by (simp add: isFloat_not_null)
  with True ev show ?thesis
    by (simp add: expressionApplier_def applyExpression_def numTruthy_iff stringTruthy_iff)
next
  case False
  with ev show ?thesis
    by (simp add: expressionApplier_def applyExpression_def stringTruthy_iff)
qed

lemma expressionApplier_null_number:
  "evalSync J (expression a) ctx = Some JNull \<Longrightarrow> type a = ''Number'' \<Longrightarrow>
   fst (expressionApplier J ngsi2 ctx a evs) = Inl TypeError"
  by (simp add: expressionApplier_def applyExpression_def isFloat_null)

lemma expressionApplier_throws:
  "evalSync J (expression a) ctx = None \<Longrightarrow>
   fst (expressionApplier J ngsi2 ctx a evs) = Inl JexlError"
  by (simp add: expressionApplier_def applyExpression_def)




subsection \<open>contextAvailable\<close>

lemma isTransform_iff:
  "isTransform J n \<longleftrightarrow> transforms J n \<noteq> None \<or> n \<in> set objectPrototype"
  by (simp add: isTransform_def getTransform_def split: option.splits)

lemma contextAvailable_fst:
  "fst (contextAvailable J e ctx evs) =
     (case tokenize J e of
        None \<Rightarrow> Inl (InvalidExpression e)
      | Some tokens \<Rightarrow>
          if list_all (\<lambda>t. tokenType t = ''identifier'' \<longrightarrow>
                           ctx (tokenValue t) \<noteq> None \<or> isTransform J (tokenValue t)) tokens
          then (if evalSync J (Some e) ctx = None then Inl (InvalidExpression e) else Inr True)
          else Inr False)"
  by (auto simp: contextAvailable_def Let_def list_ex_iff list_all_iff split: option.splits)

text \<open>\<^verbatim>\<open>InvalidExpression\<close> is what the \<^verbatim>\<open>catch\<close> block throws: the lexer or the evaluator threw.\<close>

lemma contextAvailable_invalid_iff:
  "fst (contextAvailable J e ctx evs) = Inl x \<longleftrightarrow>
     x = InvalidExpression e \<and>
     (tokenize J e = None \<or>
      (\<exists>tokens. tokenize J e = Some tokens \<and>
         list_all (\<lambda>t. tokenType t = ''identifier'' \<longrightarrow>
                        ctx (tokenValue t) \<noteq> None \<or> isTransform J (tokenValue t)) tokens \<and>
         evalSync J (Some e) ctx = None))"
  by (auto simp: contextAvailable_fst split: option.splits)

text \<open>
  Claim C1, as amended. For an expression that tokenizes and has an identifier that is
  neither a key of the context, nor the name of a registered transform, nor the name of a
  member of \<^verbatim>\<open>Object.prototype\<close>, \<^verbatim>\<open>contextAvailable\<close> returns \<open>false\<close> (it does not fail) and
  evaluates nothing: the list of evaluations is as before.
\<close>

theorem contextAvailable_unknown_identifier:
  assumes "tokenize J e = Some tokens"
    and "t \<in> set tokens" and "tokenType t = ''identifier''"
    and "ctx (tokenValue t) = None" and "transforms J (tokenValue t) = None"
    and "tokenValue t \<notin> set objectPrototype"
  shows "contextAvailable J e ctx evs = (Inr False, evs)"
  using assms by (auto simp: contextAvailable_def Let_def list_ex_iff isTransform_iff)

theorem contextAvailable_unknown_identifier_witness:
  "contextAvailable sampleJexl ''c+b'' sampleContext [] = (Inr False, [])"
proof -
  let ?c = "Token ''identifier'' ''c''"
  have "tokenize sampleJexl ''c+b'' = Some [?c, Token ''binaryOp'' ''+'', Token ''identifier'' ''b'']"
    by code_simp
  moreover have "?c \<in> set [?c, Token ''binaryOp'' ''+'', Token ''identifier'' ''b'']"
    by simp
  moreover have "tokenType ?c = ''identifier''"
    by simp
  moreover have "sampleContext (tokenValue ?c) = None"
    by code_simp
  moreover have "transforms sampleJexl (tokenValue ?c) = None"
    by code_simp
  moreover have "tokenValue ?c \<notin> set objectPrototype"
    by code_simp
  ultimately show ?thesis
    by (rule contextAvailable_unknown_identifier)
qed

text \<open>
  Claim C1 as stated fails. With the context \<^verbatim>\<open>{a: 2, b: 3}\<close> and the expression \<^verbatim>\<open>c+b\<close>,
  \<^verbatim>\<open>contextAvailable\<close> does not fail with \<^verbatim>\<open>InvalidExpression\<close>; it returns \<open>false\<close>. With
  the same context and the expression \<^verbatim>\<open>toString\<close>, whose identifier is neither a key of
  the context nor a registered transform, the expression is evaluated.
\<close>

theorem contextAvailable_unknown_identifier_counterexample:
  "fst (contextAvailable sampleJexl ''c+b'' sampleContext []) \<noteq> Inl (InvalidExpression ''c+b'')
   \<and> fst (contextAvailable sampleJexl ''c+b'' sampleContext []) = Inr False
   \<and> tokenize sampleJexl ''toString'' = Some [Token ''identifier'' ''toString'']
   \<and> sampleContext ''toString'' = None
   \<and> transforms sampleJexl ''toString'' = None
   \<and> contextAvailable sampleJexl ''toString'' sampleContext [] = (Inr True, [Some ''toString''])"
  by code_simp

lemma contextAvailable_sample_sum:
  "contextAvailable sampleJexl ''a+b'' sampleContext [] = (Inr True, [Some ''a+b''])"
  by code_simp

subsection \<open>processExpressionAttributes\<close>

text \<open>
  An expression with an identifier that is neither a key of the context, nor a registered
  transform, nor a member of \<^verbatim>\<open>Object.prototype\<close>: the filter leaves the item out and
  evaluates nothing.
\<close>

lemma keepItem_unknown_identifier:
  assumes "expression item = Some e" and "tokenize J e = Some tokens"
    and "t \<in> set tokens" and "tokenType t = ''identifier''"
    and "ctx (tokenValue t) = None" and "transforms J (tokenValue t) = None"
    and "tokenValue t \<notin> set objectPrototype"
  shows "keepItem J ctx item evs = (Inr False, evs)"
  using assms by (auto simp: keepItem_def contextAvailable_def Let_def list_ex_iff isTransform_iff)

lemma keepItem_fst:
  "fst (keepItem J ctx item evs) =
     (case expression item of
        None \<Rightarrow> Inr False
      | Some e \<Rightarrow>
          if e = [] then Inr False
          else if tokenize J e = None \<or> (checked J ctx item \<and> evalSync J (Some e) ctx = None)
          then Inl (InvalidExpression e)
          else Inr (checked J ctx item))"
  by (auto simp: keepItem_def contextAvailable_fst checked_def split: option.splits)

lemma keepItem_Inr: "fst (keepItem J ctx item evs) = Inr b \<Longrightarrow> b = checked J ctx item"
  by (auto simp: keepItem_fst checked_def split: option.splits if_splits)

text \<open>
  The check of the code and the scope of the specification agree on every item but those
  that name a member of \<^verbatim>\<open>Object.prototype\<close>.
\<close>

lemma checked_inScope:
  "\<not> namesInherited J ctx item \<Longrightarrow> checked J ctx item = inScope J ctx item"
  by (auto simp: checked_def inScope_def namesInherited_def validIdentifier_def isTransform_iff
        list_all_iff list_ex_iff split: option.splits)

lemma keepItem_fst_inScope:
  "\<not> namesInherited J ctx item \<Longrightarrow>
   fst (keepItem J ctx item evs) =
     (if invalidItem J ctx item then Inl (InvalidExpression (the (expression item)))
      else Inr (inScope J ctx item))"
  by (auto simp: keepItem_fst checked_inScope invalidItem_def inScope_def split: option.splits)

lemma filterItems_fst_valid:
  "\<not> list_ex (namesInherited J ctx) list \<Longrightarrow> \<not> list_ex (invalidItem J ctx) list \<Longrightarrow>
   fst (filterItems J ctx list evs) = Inr (filter (inScope J ctx) list)"
proof (induction list arbitrary: evs)
  case Nil
  show ?case by simp
next
  case (Cons item list)
  from Cons.prems have "fst (keepItem J ctx item evs) = Inr (inScope J ctx item)"
    by (simp add: keepItem_fst_inScope)
  then obtain evs' where k: "keepItem J ctx item evs = (Inr (inScope J ctx item), evs')"
    by (cases "keepItem J ctx item evs") simp
  from Cons have "fst (filterItems J ctx list evs') = Inr (filter (inScope J ctx) list)"
    by simp
  then obtain evs'' where "filterItems J ctx list evs' = (Inr (filter (inScope J ctx) list), evs'')"
    by (cases "filterItems J ctx list evs'") simp
  with k show ?case by simp
qed

lemma filterItems_fst_invalid:
  "\<not> list_ex (namesInherited J ctx) list \<Longrightarrow> list_ex (invalidItem J ctx) list \<Longrightarrow>
   \<exists>e. fst (filterItems J ctx list evs) = Inl (InvalidExpression e)"
proof (induction list arbitrary: evs)
  case Nil
  then show ?case by simp
next
  case (Cons item list)
  from Cons.prems have n: "\<not> namesInherited J ctx item" "\<not> list_ex (namesInherited J ctx) list"
    by simp_all
  show ?case
  proof (cases "invalidItem J ctx item")
    case True
    with n have "fst (keepItem J ctx item evs) = Inl (InvalidExpression (the (expression item)))"
      by (simp add: keepItem_fst_inScope)
    then obtain evs' where
      "keepItem J ctx item evs = (Inl (InvalidExpression (the (expression item))), evs')"
      by (cases "keepItem J ctx item evs") simp
    then show ?thesis by simp
  next
    case False
    with n have "fst (keepItem J ctx item evs) = Inr (inScope J ctx item)"
      by (simp add: keepItem_fst_inScope)
    then obtain evs' where k: "keepItem J ctx item evs = (Inr (inScope J ctx item), evs')"
      by (cases "keepItem J ctx item evs") simp
    from False Cons.prems have "list_ex (invalidItem J ctx) list"
      by simp
    from Cons.IH [OF n(2) this] obtain e where
      "fst (filterItems J ctx list evs') = Inl (InvalidExpression e)"
      by blast
    then obtain evs'' where "filterItems J ctx list evs' = (Inl (InvalidExpression e), evs'')"
      by (cases "filterItems J ctx list evs'") simp
    with k show ?thesis by simp
  qed
qed

lemma mapItems_fst:
  "\<forall>item \<in> set xs. \<exists>new. fst (expressionApplier J ngsi2 ctx item []) = Inr new \<Longrightarrow>
   \<exists>out. fst (mapItems J ngsi2 ctx xs evs) = Inr out \<and>
         map Inr out = map (\<lambda>item. fst (expressionApplier J ngsi2 ctx item [])) xs"
proof (induction xs arbitrary: evs)
  case Nil
  show ?case by simp
next
  case (Cons item xs)
  from Cons.prems obtain new where n: "fst (expressionApplier J ngsi2 ctx item []) = Inr new"
    by auto
  then have "fst (expressionApplier J ngsi2 ctx item evs) = Inr new"
    by (simp add: expressionApplier_fst [of J ngsi2 ctx item evs])
  then obtain evs' where a: "expressionApplier J ngsi2 ctx item evs = (Inr new, evs')"
    by (cases "expressionApplier J ngsi2 ctx item evs") simp
  from Cons.prems
  have "\<forall>item \<in> set xs. \<exists>new. fst (expressionApplier J ngsi2 ctx item []) = Inr new"
    by simp
  from Cons.IH [OF this] obtain out where
    o: "fst (mapItems J ngsi2 ctx xs evs') = Inr out"
       "map Inr out = map (\<lambda>item. fst (expressionApplier J ngsi2 ctx item [])) xs"
    by blast
  then obtain evs'' where "mapItems J ngsi2 ctx xs evs' = (Inr out, evs'')"
    by (cases "mapItems J ngsi2 ctx xs evs'") simp
  with a n o(2) show ?case by simp
qed

lemma applier_defined:
  assumes s: "inScope J ctx item" and v: "\<not> invalidItem J ctx item"
    and n: "\<not> (type item = ''Number'' \<and> evalSync J (expression item) ctx = Some JNull)"
  shows "\<exists>new. fst (expressionApplier J ngsi2 ctx item []) = Inr new"
proof -
  from s obtain e where "expression item = Some e" and "e \<noteq> []"
    by (auto simp: inScope_def split: option.splits)
  with s v obtain r where r: "evalSync J (expression item) ctx = Some r"
    by (auto simp: invalidItem_def)
  with n have "type item = ''Number'' \<longrightarrow> r \<noteq> JNull"
    by simp
  from expressionApplier_result [OF r this] show ?thesis
    by blast
qed

text \<open>
  Claim C8, as amended. Take a list in which no item names a member of
  \<^verbatim>\<open>Object.prototype\<close> that is neither a key of the context nor a registered transform.
  If no item is invalid and no item in scope of type \<^verbatim>\<open>Number\<close> evaluates to \<^verbatim>\<open>null\<close>, the
  output is the list of the transformed items that are in scope, in input order: an item
  without expression, with an empty one, or with an identifier out of the context is left
  out without an error. If some item is invalid (its expression does not tokenize, or is
  in scope and does not evaluate), the whole call fails with \<^verbatim>\<open>InvalidExpression\<close>.
  Nothing is stated of a list with such an inherited name, nor of a \<^verbatim>\<open>null\<close> result under
  \<^verbatim>\<open>Number\<close> in a list without an invalid item.
\<close>

theorem processExpressionAttributes_filter_map:
  assumes "\<not> list_ex (namesInherited J ctx) list"
  shows "(\<not> list_ex (invalidItem J ctx) list \<and>
    (\<forall>item \<in> set list. inScope J ctx item \<longrightarrow>
       \<not> (type item = ''Number'' \<and> evalSync J (expression item) ctx = Some JNull)) \<longrightarrow>
    (\<exists>out. fst (processExpressionAttributes J ngsi2 list ctx evs) = Inr out \<and>
           map Inr out =
             map (\<lambda>item. fst (expressionApplier J ngsi2 ctx item [])) (filter (inScope J ctx) list)))
   \<and> (list_ex (invalidItem J ctx) list \<longrightarrow>
        (\<exists>e. fst (processExpressionAttributes J ngsi2 list ctx evs) = Inl (InvalidExpression e)))"
proof (intro conjI impI)
  assume a: "\<not> list_ex (invalidItem J ctx) list \<and>
    (\<forall>item \<in> set list. inScope J ctx item \<longrightarrow>
       \<not> (type item = ''Number'' \<and> evalSync J (expression item) ctx = Some JNull))"
  with assms have "fst (filterItems J ctx list evs) = Inr (filter (inScope J ctx) list)"
    by (simp add: filterItems_fst_valid)
  then obtain evs' where f: "filterItems J ctx list evs = (Inr (filter (inScope J ctx) list), evs')"
    by (cases "filterItems J ctx list evs") simp
  have "\<forall>item \<in> set (filter (inScope J ctx) list).
          \<exists>new. fst (expressionApplier J ngsi2 ctx item []) = Inr new"
  proof
    fix item
    assume "item \<in> set (filter (inScope J ctx) list)"
    then have i: "item \<in> set list" "inScope J ctx item"
      by simp_all
    with a have "\<not> invalidItem J ctx item"
      by (auto simp: list_ex_iff)
    moreover from a i
    have "\<not> (type item = ''Number'' \<and> evalSync J (expression item) ctx = Some JNull)"
      by blast
    ultimately show "\<exists>new. fst (expressionApplier J ngsi2 ctx item []) = Inr new"
      using i(2) by (rule applier_defined [rotated])
  qed
  from mapItems_fst [OF this, of evs']
  show "\<exists>out. fst (processExpressionAttributes J ngsi2 list ctx evs) = Inr out \<and>
           map Inr out =
             map (\<lambda>item. fst (expressionApplier J ngsi2 ctx item [])) (filter (inScope J ctx) list)"
    by (simp add: processExpressionAttributes_def f)
next
  assume "list_ex (invalidItem J ctx) list"
  from filterItems_fst_invalid [OF assms this, of evs]
  obtain e where "fst (filterItems J ctx list evs) = Inl (InvalidExpression e)"
    by blast
  then obtain evs' where "filterItems J ctx list evs = (Inl (InvalidExpression e), evs')"
    by (cases "filterItems J ctx list evs") simp
  then show "\<exists>e. fst (processExpressionAttributes J ngsi2 list ctx evs) = Inl (InvalidExpression e)"
    by (simp add: processExpressionAttributes_def)
qed

theorem processExpressionAttributes_filter_map_witness:
  "fst (processExpressionAttributes sampleJexl False
          [derived ''sum'' ''Number'' (Some ''a+b'') None,
           derived ''x'' ''Number'' (Some ''c+b'') None,
           attr ''plain'' ''Text'' (JString ''v'')] sampleContext [])
     = Inr [attr ''sum'' ''Number'' (JNumber (Num 5))]
   \<and> fst (processExpressionAttributes sampleJexl False
            [derived ''sum'' ''Number'' (Some ''a+b'') None,
             derived ''bad'' ''Number'' (Some ''a +'') None] sampleContext [])
       = Inl (InvalidExpression ''a +'')"
proof -
  let ?ok = "[derived ''sum'' ''Number'' (Some ''a+b'') None,
              derived ''x'' ''Number'' (Some ''c+b'') None,
              attr ''plain'' ''Text'' (JString ''v'')]"
  let ?bad = "[derived ''sum'' ''Number'' (Some ''a+b'') None,
               derived ''bad'' ''Number'' (Some ''a +'') None]"
  have h: "\<not> list_ex (namesInherited sampleJexl sampleContext) ?ok"
    by code_simp
  have v: "\<not> list_ex (invalidItem sampleJexl sampleContext) ?ok"
    by code_simp
  have s: "filter (inScope sampleJexl sampleContext) ?ok = [derived ''sum'' ''Number'' (Some ''a+b'') None]"
    by code_simp
  have n: "\<forall>item \<in> set ?ok. inScope sampleJexl sampleContext item \<longrightarrow>
             \<not> (type item = ''Number'' \<and> evalSync sampleJexl (expression item) sampleContext = Some JNull)"
    by code_simp
  have a: "fst (expressionApplier sampleJexl False sampleContext
                  (derived ''sum'' ''Number'' (Some ''a+b'') None) [])
             = Inr (attr ''sum'' ''Number'' (JNumber (Num 5)))"
    by code_simp
  from processExpressionAttributes_filter_map [OF h, of False "[]"] v n
  obtain out where
    "fst (processExpressionAttributes sampleJexl False ?ok sampleContext []) = Inr out"
    "map Inr out = map (\<lambda>item. fst (expressionApplier sampleJexl False sampleContext item []))
                     (filter (inScope sampleJexl sampleContext) ?ok)"
    by blast
  then have first: "fst (processExpressionAttributes sampleJexl False ?ok sampleContext [])
                      = Inr [attr ''sum'' ''Number'' (JNumber (Num 5))]"
    unfolding s by (auto simp: a)
  have h': "\<not> list_ex (namesInherited sampleJexl sampleContext) ?bad"
    by code_simp
  have i: "list_ex (invalidItem sampleJexl sampleContext) ?bad"
    by code_simp
  with processExpressionAttributes_filter_map [OF h', of False "[]"]
  obtain e where "fst (processExpressionAttributes sampleJexl False ?bad sampleContext [])
                    = Inl (InvalidExpression e)"
    by blast
  moreover have "fst (processExpressionAttributes sampleJexl False ?bad sampleContext [])
                   = Inl (InvalidExpression ''a +'')"
    by code_simp
  ultimately show ?thesis
    using first by simp
qed

text \<open>
  Claim C8 as stated fails in three places. An item whose expression is invalid is not
  left out: the expression \<^verbatim>\<open>a # b\<close> does not tokenize and the whole call fails, although
  the first item is valid. With the context \<^verbatim>\<open>{a: null}\<close>, the items of expression \<^verbatim>\<open>a\<close> and
  of types \<^verbatim>\<open>Text\<close> and \<^verbatim>\<open>Number\<close> are both in scope and the call fails with a \<^verbatim>\<open>TypeError\<close>.
  And the item of expression \<^verbatim>\<open>toString\<close>, an identifier that is neither a key of the
  context nor a registered transform, is not left out.
\<close>

theorem processExpressionAttributes_invalid_counterexample:
  "fst (processExpressionAttributes sampleJexl False
          [derived ''sum'' ''Number'' (Some ''a+b'') None,
           derived ''bad'' ''Number'' (Some ''a # b'') None] sampleContext [])
     = Inl (InvalidExpression ''a # b'')
   \<and> fst (processExpressionAttributes sampleJexl False
            [derived ''t'' ''Text'' (Some ''a'') None,
             derived ''n'' ''Number'' (Some ''a'') None] [''a'' \<mapsto> JNull] [])
       = Inl TypeError
   \<and> fst (processExpressionAttributes sampleJexl False
            [derived ''x'' ''None'' (Some ''toString'') None] sampleContext [])
       = Inr [attr ''x'' ''None'' JNull]"
  by code_simp

subsection \<open>What gets evaluated\<close>

lemma contextAvailable_snd:
  "snd (contextAvailable J e ctx evs) =
     (case tokenize J e of
        None \<Rightarrow> evs
      | Some tokens \<Rightarrow>
          if list_all (\<lambda>t. tokenType t = ''identifier'' \<longrightarrow>
                           ctx (tokenValue t) \<noteq> None \<or> isTransform J (tokenValue t)) tokens
          then evs @ [Some e] else evs)"
  by (auto simp: contextAvailable_def Let_def list_ex_iff list_all_iff split: option.splits)

lemma keepItem_snd:
  "snd (keepItem J ctx item evs) = (if checked J ctx item then evs @ [expression item] else evs)"
  by (auto simp: keepItem_def contextAvailable_snd checked_def split: option.splits)

lemma filterItems_snd:
  "\<exists>es. snd (filterItems J ctx list evs) = evs @ es \<and>
        set es \<subseteq> expression ` {item \<in> set list. checked J ctx item}"
proof (induction list arbitrary: evs)
  case Nil
  show ?case by simp
next
  case (Cons item list)
  let ?evs = "if checked J ctx item then evs @ [expression item] else evs"
  obtain r where k: "keepItem J ctx item evs = (r, ?evs)"
    using keepItem_snd [of J ctx item evs] by (cases "keepItem J ctx item evs") simp
  from Cons.IH [of ?evs] obtain es where
    e: "snd (filterItems J ctx list ?evs) = ?evs @ es"
    and s: "set es \<subseteq> expression ` {item \<in> set list. checked J ctx item}"
    by blast
  obtain r' where f: "filterItems J ctx list ?evs = (r', ?evs @ es)"
    using e by (cases "filterItems J ctx list ?evs") simp
  have pre: "\<exists>es'. ?evs = evs @ es' \<and>
               set es' \<subseteq> expression ` {i \<in> set (item # list). checked J ctx i}"
    by auto
  have post: "\<exists>es'. ?evs @ es = evs @ es' \<and>
               set es' \<subseteq> expression ` {i \<in> set (item # list). checked J ctx i}"
  proof (cases "checked J ctx item")
    case True
    with s have "set ([expression item] @ es) \<subseteq> expression ` {i \<in> set (item # list). checked J ctx i}"
      by auto
    with True show ?thesis
      by (intro exI [of _ "[expression item] @ es"]) simp
  next
    case False
    with s have "set es \<subseteq> expression ` {i \<in> set (item # list). checked J ctx i}"
      by auto
    with False show ?thesis
      by (intro exI [of _ es]) simp
  qed
  show ?case
  proof (cases r)
    case (Inl x)
    with k pre show ?thesis
      by simp
  next
    case (Inr keep)
    with k f post show ?thesis
      by (cases r') simp_all
  qed
qed

lemma mapItems_snd:
  "\<exists>es. snd (mapItems J ngsi2 ctx xs evs) = evs @ es \<and> set es \<subseteq> expression ` set xs"
proof (induction xs arbitrary: evs)
  case Nil
  show ?case by simp
next
  case (Cons item xs)
  obtain r where a: "expressionApplier J ngsi2 ctx item evs = (r, evs @ [expression item])"
    using expressionApplier_evaluates_once [of J ngsi2 ctx item evs]
    by (cases "expressionApplier J ngsi2 ctx item evs") simp
  from Cons.IH [of "evs @ [expression item]"] obtain es where
    e: "snd (mapItems J ngsi2 ctx xs (evs @ [expression item])) = (evs @ [expression item]) @ es"
    and s: "set es \<subseteq> expression ` set xs"
    by blast
  obtain r' where m: "mapItems J ngsi2 ctx xs (evs @ [expression item]) = (r', evs @ expression item # es)"
    using e by (cases "mapItems J ngsi2 ctx xs (evs @ [expression item])") simp
  have pre: "\<exists>es'. evs @ [expression item] = evs @ es' \<and> set es' \<subseteq> expression ` set (item # xs)"
    by simp
  from s have post: "\<exists>es'. evs @ expression item # es = evs @ es' \<and> set es' \<subseteq> expression ` set (item # xs)"
    by (intro exI [of _ "expression item # es"]) auto
  show ?case
  proof (cases r)
    case (Inl x)
    with a pre show ?thesis
      by simp
  next
    case (Inr new)
    with a m post show ?thesis
      by (cases r') simp_all
  qed
qed

lemma filterItems_fst_Inr:
  "fst (filterItems J ctx list evs) = Inr kept \<Longrightarrow> kept = filter (checked J ctx) list"
proof (induction list arbitrary: evs kept)
  case Nil
  then show ?case by simp
next
  case (Cons item list)
  obtain r evs' where k: "keepItem J ctx item evs = (r, evs')"
    by (cases "keepItem J ctx item evs")
  with Cons.prems obtain keep where r: "r = Inr keep"
    by (cases r) simp_all
  with k have c: "keep = checked J ctx item"
    using keepItem_Inr [of J ctx item evs keep] by simp
  obtain r' evs'' where f: "filterItems J ctx list evs' = (r', evs'')"
    by (cases "filterItems J ctx list evs'")
  with Cons.prems k r obtain kept' where r': "r' = Inr kept'"
    by (cases r') simp_all
  with f have "kept' = filter (checked J ctx) list"
    using Cons.IH [of evs' kept'] by simp
  with Cons.prems k r f r' c show ?case
    by auto
qed

text \<open>
  The check comes before the evaluation: every expression that
  \<^verbatim>\<open>processExpressionAttributes\<close> hands to the evaluator, in the filter or in the map, is
  the expression of an item that passed the check.
\<close>

lemma processExpressionAttributes_evaluates_checked:
  "\<exists>es. snd (processExpressionAttributes J ngsi2 list ctx evs) = evs @ es \<and>
        set es \<subseteq> expression ` {item \<in> set list. checked J ctx item}"
proof -
  from filterItems_snd [of J ctx list evs] obtain es where
    e: "snd (filterItems J ctx list evs) = evs @ es"
    and s: "set es \<subseteq> expression ` {item \<in> set list. checked J ctx item}"
    by blast
  obtain r where f: "filterItems J ctx list evs = (r, evs @ es)"
    using e by (cases "filterItems J ctx list evs") simp
  show ?thesis
  proof (cases r)
    case (Inl x)
    with f have "snd (processExpressionAttributes J ngsi2 list ctx evs) = evs @ es"
      by (simp add: processExpressionAttributes_def)
    with s show ?thesis
      by blast
  next
    case (Inr kept)
    with f have k: "kept = filter (checked J ctx) list"
      using filterItems_fst_Inr [of J ctx list evs kept] by simp
    from mapItems_snd [of J ngsi2 ctx kept "evs @ es"] obtain es' where
      e': "snd (mapItems J ngsi2 ctx kept (evs @ es)) = (evs @ es) @ es'"
      and s': "set es' \<subseteq> expression ` set kept"
      by blast
    from s' k have "set es' \<subseteq> expression ` {item \<in> set list. checked J ctx item}"
      by auto
    with s have "set (es @ es') \<subseteq> expression ` {item \<in> set list. checked J ctx item}"
      by simp
    moreover from f Inr e'
    have "snd (processExpressionAttributes J ngsi2 list ctx evs) = evs @ (es @ es')"
      by (simp add: processExpressionAttributes_def)
    ultimately show ?thesis
      by blast
  qed
qed

subsection \<open>The registered transforms\<close>

lemma transforms_registered:
  "transforms (registerTransforms J) n =
     (if n = ''substr'' then Some substrTransform
      else if n = ''trim'' then Some trimTransform
      else if n = ''length'' then Some lengthTransform
      else if n = ''indexOf'' then Some indexOfTransform
      else transforms J n)"
  by (simp add: registerTransforms_def addTransform_def)

text \<open>
  \<^verbatim>\<open>isTransform\<close> holds of the four transforms of the module, of what was registered
  before, and of the names of the members of \<^verbatim>\<open>Object.prototype\<close>.
\<close>

lemma isTransform_registerTransforms:
  "isTransform (registerTransforms J) n \<longleftrightarrow>
     n \<in> {''indexOf'', ''length'', ''trim'', ''substr''} \<or> transforms J n \<noteq> None
     \<or> n \<in> set objectPrototype"
  by (auto simp: isTransform_iff transforms_registered)

lemma isTransform_examples:
  "isTransform sampleJexl ''length''"
  "isTransform sampleJexl ''toString''"
  "isTransform sampleJexl ''constructor''"
  "\<not> isTransform sampleJexl ''c''"
  by code_simp+

lemma transform_examples:
  "indexOfTransform [JString ''hello'', JString ''l''] = JNumber (Num 2)"
  "indexOfTransform [JString ''hello'', JString ''z''] = JNumber (Num (- 1))"
  "lengthTransform [JNumber (Num (43 / 2))] = JNumber (Num 4)"
  "trimTransform [JString ''  a b ''] = JString ''a b''"
  "substrTransform [JString ''hello'', JNumber (Num 1), JNumber (Num 3)] = JString ''ell''"
  "substrTransform [JString ''hello'', JNumber (Num (- 3))] = JString ''llo''"
  by code_simp+

section \<open>Properties of the context server\<close>

subsection \<open>The split of attributes and commands\<close>

lemma attributeLoopNgsi1_filter:
  "attributeLoopNgsi1 cs xs attrs cmds =
     (attrs @ filter (\<lambda>a. \<not> list_ex (\<lambda>command. name a = name command) cs) xs,
      cmds @ filter (\<lambda>a. list_ex (\<lambda>command. name a = name command) cs) xs)"
  by (induction xs arbitrary: attrs cmds) simp_all

text \<open>
  v1: the two lists are the attributes without and with a command of the same name, each
  in input order. So every attribute is in exactly one of them.
\<close>

lemma list_ex_name:
  "list_ex (\<lambda>command. name a = name command) cs \<longleftrightarrow> name a \<in> name ` set cs"
  by (auto simp: list_ex_iff)

lemma splitUpdatesNgsi1_partition:
  "splitUpdatesNgsi1 element device =
     (case commands device of
        None \<Rightarrow> (attributes element, [])
      | Some cs \<Rightarrow>
          (filter (\<lambda>a. name a \<notin> name ` set cs) (attributes element),
           filter (\<lambda>a. name a \<in> name ` set cs) (attributes element)))"
  by (simp add: splitUpdatesNgsi1_def attributeLoopNgsi1_filter list_ex_name split: option.splits)

lemma splitUpdatesNgsi1_disjoint:
  assumes "splitUpdatesNgsi1 element device = (attrs, cmds)"
  shows "name ` set attrs \<inter> name ` set cmds = {}"
    and "set attrs \<union> set cmds = set (attributes element)"
    and "length attrs + length cmds = length (attributes element)"
  using assms sum_length_filter_compl [of "\<lambda>a. name a \<in> name ` set (the (commands device))" "attributes element"]
  by (auto simp: splitUpdatesNgsi1_partition split: option.splits)

text \<open>The assignment of the name throws on \<^verbatim>\<open>null\<close> and \<^verbatim>\<open>undefined\<close> only.\<close>

lemma setName_throws: "setName i v = Inl e \<longleftrightarrow> e = TypeError \<and> (v = FNull \<or> v = FUndefined)"
  by (cases v) auto

lemma attributeLoopNgsi2_filter:
  "attributeLoopNgsi2 element attrs =
     (if list_ex (\<lambda>(i, v). i \<noteq> ''type'' \<and> i \<noteq> ''id'' \<and> (v = FNull \<or> v = FUndefined)) element
      then Inl TypeError
      else Inr (attrs @ map (\<lambda>(i, v). projr (setName i v))
                         (filter (\<lambda>(i, v). i \<noteq> ''type'' \<and> i \<noteq> ''id'') element)))"
proof (induction element arbitrary: attrs)
  case Nil
  show ?case by simp
next
  case (Cons p element)
  obtain i v where p: "p = (i, v)"
    by (cases p)
  show ?case
    by (cases v) (simp_all add: p Cons.IH)
qed

lemma commandLoopNgsi2_filter:
  "commandLoopNgsi2 cs element cmds =
     (if list_ex (\<lambda>(i, v). list_ex (\<lambda>command. i = name command) cs
                            \<and> (v = FNull \<or> v = FUndefined)) element
      then Inl TypeError
      else Inr (cmds @ map (\<lambda>(i, v). projr (setName i v))
                        (filter (\<lambda>(i, v). list_ex (\<lambda>command. i = name command) cs) element)))"
proof (induction element arbitrary: cmds)
  case Nil
  show ?case by simp
next
  case (Cons p element)
  obtain i v where p: "p = (i, v)"
    by (cases p)
  show ?case
    by (cases v) (simp_all add: p Cons.IH)
qed

text \<open>
  v2: when no assignment throws, the attribute list holds every key but \<^verbatim>\<open>type\<close> and \<^verbatim>\<open>id\<close>,
  whether or not a command has that name; the command list holds the keys that name a
  command.
\<close>

lemma splitUpdatesNgsi2_lists:
  assumes "splitUpdatesNgsi2 element device = Inr (attrs, cmds)"
  shows "attrs = map (\<lambda>(i, v). projr (setName i v))
                   (filter (\<lambda>(i, v). i \<noteq> ''type'' \<and> i \<noteq> ''id'') element)"
    and "cmds = (case commands device of
                   None \<Rightarrow> []
                 | Some cs \<Rightarrow>
                     map (\<lambda>(i, v). projr (setName i v))
                       (filter (\<lambda>(i, v). list_ex (\<lambda>command. i = name command) cs) element))"
  using assms
  by (auto simp: splitUpdatesNgsi2_def attributeLoopNgsi2_filter commandLoopNgsi2_filter
        split: option.splits sum.splits if_splits)

text \<open>A property that is \<^verbatim>\<open>null\<close> makes the split throw, and the exception is not caught.\<close>

lemma splitUpdatesNgsi2_null:
  "splitUpdatesNgsi2 [(''id'', FString ''d1''), (''type'', FString ''Robot''), (''speed'', FNull)]
     sampleDevice = Inl TypeError"
  "handleUpdateNgsi2 sampleServer sampleServices sampleHeaders None
     [[(''id'', FString ''d1''), (''type'', FString ''Robot''), (''speed'', FNull)]]
     = Uncaught TypeError"
  by code_simp+

text \<open>
  Claim C2. The v1 split is exhaustive and disjoint (\<open>splitUpdatesNgsi1_disjoint\<close>). The v2
  split is not: for a device with the command \<^verbatim>\<open>move\<close>, the entity
  \<^verbatim>\<open>{id: "d1", type: "Robot", move: {type: "command", value: "forward"}}\<close> puts \<^verbatim>\<open>move\<close> in the
  command list and in the attribute list.
\<close>

theorem splitUpdatesNgsi2_command_in_both_lists:
  "splitUpdatesNgsi2
     [(''id'', FString ''d1''), (''type'', FString ''Robot''),
      (''move'', FAttribute (attr [] ''command'' (JString ''forward'')))]
     sampleDevice
   = Inr ([FAttribute (attr ''move'' ''command'' (JString ''forward''))],
          [FAttribute (attr ''move'' ''command'' (JString ''forward''))])"
  by code_simp

subsection \<open>createUpdateResponse\<close>

text \<open>What the inner loop leaves: the attribute at the element's index blanked, if any.\<close>

lemma blankValues_result:
  "blankValues i j attrs =
     (if j < length attrs then
        (if i < length attrs then Inr (attrs[i := (attrs ! i)\<lparr>value := JString ''''\<rparr>])
         else Inl TypeError)
      else Inr attrs)"
proof (induction i j attrs rule: blankValues.induct)
  case (1 i j attrs)
  show ?case
  proof (cases "j < length attrs \<and> i < length attrs")
    case True
    with "1.IH" show ?thesis
      by (subst blankValues.simps) simp
  next
    case False
    then show ?thesis
      by (subst blankValues.simps) auto
  qed
qed

lemma contextResponsesFrom_length:
  "contextResponsesFrom i elements = Inr responses \<Longrightarrow> length responses = length elements"
  by (induction elements arbitrary: i responses) (auto split: sum.splits)

lemma contextResponsesFrom_code:
  "contextResponsesFrom i elements = Inr responses \<Longrightarrow>
   \<forall>r \<in> set responses. code (statusCode r) = 200"
  by (induction elements arbitrary: i responses) (auto split: sum.splits)

text \<open>
  Claim C6. The claim wants every attribute value of every entity blanked. The loop
  assigns to \<^verbatim>\<open>attributes[i]\<close>, \<open>i\<close> being the index of the context element: for the first
  element of a request only its first attribute is blanked. Here the second attribute
  keeps its value \<^verbatim>\<open>2\<close>.
\<close>

theorem createUpdateResponse_keeps_second_value:
  "createUpdateResponse
     [\<lparr>entityId = ''d1'', entityType = ''Robot'', isPattern = False,
       attributes = [attr ''a'' ''Text'' (JString ''1''), attr ''b'' ''Text'' (JString ''2'')]\<rparr>]
   = Inr [\<lparr>contextElement =
             \<lparr>entityId = ''d1'', entityType = ''Robot'', isPattern = False,
              attributes = [attr ''a'' ''Text'' (JString ''''), attr ''b'' ''Text'' (JString ''2'')]\<rparr>,
           statusCode = \<lparr>code = 200, reasonPhrase = ''OK'', details = None\<rparr>\<rparr>]"
  by code_simp

text \<open>With two context elements of one attribute each, the second assignment throws.\<close>

lemma createUpdateResponse_throws:
  "createUpdateResponse
     [\<lparr>entityId = ''d1'', entityType = ''Robot'', isPattern = False,
       attributes = [attr ''a'' ''Text'' (JString ''1'')]\<rparr>,
      \<lparr>entityId = ''d2'', entityType = ''Robot'', isPattern = False,
       attributes = [attr ''a'' ''Text'' (JString ''1'')]\<rparr>]
   = Inl TypeError"
  by code_simp

text \<open>The same request through the route, with handlers that succeed.\<close>

lemma updateRouteNgsi1_keeps_second_value:
  "updateRouteNgsi1 sampleServer sampleServices sampleHeaders
     [\<lparr>entityId = ''d1'', entityType = ''Robot'', isPattern = False,
       attributes = [attr ''a'' ''Text'' (JString ''1''), attr ''b'' ''Text'' (JString ''2'')]\<rparr>]
   = Responded 200 (ContextResponses
       [\<lparr>contextElement =
           \<lparr>entityId = ''d1'', entityType = ''Robot'', isPattern = False,
            attributes = [attr ''a'' ''Text'' (JString ''''), attr ''b'' ''Text'' (JString ''2'')]\<rparr>,
         statusCode = \<lparr>code = 200, reasonPhrase = ''OK'', details = None\<rparr>\<rparr>])"
  by code_simp

subsection \<open>clear\<close>

lemma responseCode_errorNotFound: "responseCode errorNotFound = 500"
  by (simp add: responseCode_def errorNotFound_def)

lemma errorName_errorNotFound: "errorName errorNotFound = ''Error''"
  by (simp add: errorNotFound_def)

text \<open>
  Claim C5, as amended. After \<^verbatim>\<open>clear\<close> the update, command and notification handlers are
  unset and the middleware chain is empty. Every update request and every notification
  is then answered with an error response: its status is 500 and the name of its error is
  \<^verbatim>\<open>Error\<close>. (Nothing is stated of the description the response carries, nor of the query
  handler.)
\<close>

theorem clear_unsets_handlers:
  "updateHandler (clear st) = None \<and> commandHandler (clear st) = None
   \<and> notificationHandler (clear st) = None \<and> notificationMiddlewares (clear st) = []
   \<and> statusSent (updateRouteNgsi1 (clear st) svc hdrs contextElements) = Some 500
   \<and> errorNameSent (updateRouteNgsi1 (clear st) svc hdrs contextElements) = Some ''Error''
   \<and> statusSent (updateRouteNgsi2 (clear st) svc hdrs paramsEntity entities) = Some 500
   \<and> errorNameSent (updateRouteNgsi2 (clear st) svc hdrs paramsEntity entities) = Some ''Error''
   \<and> statusSent (notifyRouteNgsi1 (clear st) svc hdrs contextResponses) = Some 500
   \<and> errorNameSent (notifyRouteNgsi1 (clear st) svc hdrs contextResponses) = Some ''Error''
   \<and> statusSent (notifyRouteNgsi2 (clear st) svc hdrs dataElements) = Some 500
   \<and> errorNameSent (notifyRouteNgsi2 (clear st) svc hdrs dataElements) = Some ''Error''"
  by (simp add: clear_def updateRouteNgsi1_def handleUpdateNgsi1_def updateErrorHandlingNgsi1_def
        updateRouteNgsi2_def handleUpdateNgsi2_def updateErrorHandlingNgsi2_def
        notifyRouteNgsi1_def handleNotificationNgsi1_def queryErrorHandlingNgsi1_def
        notifyRouteNgsi2_def handleNotificationNgsi2_def queryErrorHandlingNgsi2_def
        responseCode_errorNotFound errorName_errorNotFound)

theorem clear_unsets_handlers_witness:
  "updateHandler (clear sampleServer) = None
   \<and> statusSent (updateRouteNgsi2 (clear sampleServer) sampleServices sampleHeaders None []) = Some 500
   \<and> errorNameSent (updateRouteNgsi2 (clear sampleServer) sampleServices sampleHeaders None [])
       = Some ''Error''"
  using clear_unsets_handlers [of sampleServer sampleServices sampleHeaders "[]" None "[]" "[]" "[]"]
  by simp

text \<open>
  Claim C5 as stated fails: \<^verbatim>\<open>clear\<close> does not assign to the query handler, which stays
  registered; and the response to an update after \<^verbatim>\<open>clear\<close> names the error \<^verbatim>\<open>Error\<close>, not
  \<^verbatim>\<open>ConfigurationError\<close>.
\<close>

theorem clear_counterexample:
  "queryHandler (clear sampleServer) = Some answerQuery
   \<and> errorNameSent (updateRouteNgsi1 (clear sampleServer) sampleServices sampleHeaders [])
       = Some ''Error''
   \<and> errorNameSent (updateRouteNgsi1 (clear sampleServer) sampleServices sampleHeaders [])
       \<noteq> Some ''ConfigurationError''"
  by (simp add: clear_def sampleServer_def updateRouteNgsi1_def handleUpdateNgsi1_def
        updateErrorHandlingNgsi1_def errorName_errorNotFound)

subsection \<open>handleQueryNgsi2\<close>

lemma defaultQueryHandlerNgsi2_lookups:
  "\<exists>ls. snd (defaultQueryHandlerNgsi2 svc ident ty service subservice attrs lookups) = lookups @ ls"
  by (simp add: defaultQueryHandlerNgsi2_def split: sum.splits option.splits)

lemma finishQueryForDevice_lookups:
  "\<exists>ls. snd (finishQueryForDevice st svc hdrs attrs contextEntity device lookups) = lookups @ ls"
proof -
  obtain r ls where
    "defaultQueryHandlerNgsi2 svc
       (if stringTruthy (queryId contextEntity) then queryId contextEntity else deviceId device)
       (if stringTruthy (queryType contextEntity) then queryType contextEntity else deviceType device)
       (fiwareService hdrs) (fiwareServicepath hdrs)
       (projr (completeAttributes attrs
                 (case findConfigurationGroup svc device of Inl error \<Rightarrow> None | Inr g \<Rightarrow> Some g)))
       (lookups @ [FindConfigurationGroup device])
     = (r, (lookups @ [FindConfigurationGroup device]) @ ls)"
    using defaultQueryHandlerNgsi2_lookups
    by (metis prod.collapse)
  then show ?thesis
    by (auto simp: finishQueryForDevice_def Let_def split: sum.splits option.splits prod.splits)
qed

lemma finishQueryForDevices_lookups:
  "\<exists>ls. snd (finishQueryForDevices st svc hdrs attrs contextEntity devices lookups) = lookups @ ls"
proof (induction devices arbitrary: lookups)
  case Nil
  show ?case by simp
next
  case (Cons device devices)
  obtain r l1 where f: "finishQueryForDevice st svc hdrs attrs contextEntity device lookups = (r, lookups @ l1)"
    using finishQueryForDevice_lookups by (metis prod.collapse)
  obtain r' l2 where
    "finishQueryForDevices st svc hdrs attrs contextEntity devices (lookups @ l1) = (r', (lookups @ l1) @ l2)"
    using Cons.IH by (metis prod.collapse)
  with f show ?case
    by (auto split: sum.splits)
qed

text \<open>A query that is not rejected starts with a call to the device directory.\<close>

lemma createQueryRequest_lookups:
  "\<exists>l ls. snd (createQueryRequest st svc hdrs attrs contextEntity lookups) = lookups @ l # ls"
proof -
  have h: "\<exists>ls. snd (finishQueryForDevices st svc hdrs attrs contextEntity ds (lookups @ [l]))
                  = lookups @ l # ls" for ds l
    using finishQueryForDevices_lookups [of st svc hdrs attrs contextEntity ds "lookups @ [l]"]
    by auto
  show ?thesis
  proof (cases "stringTruthy (queryId contextEntity)")
    case True
    show ?thesis
    proof (cases "getDeviceByName svc (queryId contextEntity) (fiwareService hdrs) (fiwareServicepath hdrs)")
      case (Inl error)
      with True show ?thesis
        by (simp add: createQueryRequest_def)
    next
      case (Inr innerDevice)
      with True h show ?thesis
        by (simp add: createQueryRequest_def del: finishQueryForDevices.simps) blast
    qed
  next
    case False
    show ?thesis
    proof (cases "listDevicesWithType svc (queryType contextEntity) (fiwareService hdrs) (fiwareServicepath hdrs)")
      case (Inl error)
      with False show ?thesis
        by (simp add: createQueryRequest_def)
    next
      case (Inr listing)
      obtain count devices where "listing = (count, devices)"
        by (cases listing)
      with Inr False h show ?thesis
        by (simp add: createQueryRequest_def del: finishQueryForDevices.simps) blast
    qed
  qed
qed

lemma handleQueryNgsi2_accepted_lookups:
  assumes "length entities = 1" and "\<not> stringTruthy (idPattern (entities ! 0))"
  shows "\<exists>l ls. snd (handleQueryNgsi2 st svc hdrs entities attrs lookups) = lookups @ l # ls"
proof -
  let ?ce = "\<lparr>queryId = queryId (entities ! 0), idPattern = None, queryType = queryType (entities ! 0)\<rparr>"
  obtain r l ls where "createQueryRequest st svc hdrs attrs ?ce lookups = (r, lookups @ l # ls)"
    using createQueryRequest_lookups by (metis prod.collapse)
  with assms show ?thesis
    by (auto simp: handleQueryNgsi2_def split: sum.splits failure.splits)
qed

text \<open>
  Claim C9. A v2 query whose list of entities has a length other than 1, or whose single
  entity has a (non-empty) \<^verbatim>\<open>idPattern\<close>, is answered with status 400 and the error
  \<^verbatim>\<open>BadRequest\<close>, and the device directory has not been called: the list of lookups is
  as before.
\<close>

theorem handleQueryNgsi2_rejects_before_lookup:
  assumes "length entities \<noteq> 1 \<or> (\<exists>e. entities = [e] \<and> stringTruthy (idPattern e))"
  shows "handleQueryNgsi2 st svc hdrs entities attrs lookups =
           (Next \<lparr>errorCode = Some 400, errorName = ''BadRequest'',
                  errorMessage = (if length entities \<noteq> 1 then ''more than one entity in query''
                                  else ''idPattern usage in query'')\<rparr>, lookups)
       \<and> queryRouteNgsi2 st svc hdrs entities attrs lookups =
           (Responded 400
              (ErrorNgsi2 ''BadRequest''
                 (if length entities \<noteq> 1 then ''more than one entity in query''
                  else ''idPattern usage in query'')), lookups)"
proof -
  have s: "stripped ''more than one entity in query'' = ''more than one entity in query''"
    "stripped ''idPattern usage in query'' = ''idPattern usage in query''"
    by code_simp+
  from assms show ?thesis
    by (auto simp: queryRouteNgsi2_def handleQueryNgsi2_def queryErrorHandlingNgsi2_def
          responseCode_def s)
qed

theorem handleQueryNgsi2_rejects_before_lookup_witness:
  "queryRouteNgsi2 sampleServer sampleServices sampleHeaders
     [\<lparr>queryId = Some ''d1'', idPattern = None, queryType = Some ''Robot''\<rparr>,
      \<lparr>queryId = Some ''d2'', idPattern = None, queryType = Some ''Robot''\<rparr>] None []
     = (Responded 400 (ErrorNgsi2 ''BadRequest'' ''more than one entity in query''), [])
   \<and> queryRouteNgsi2 sampleServer sampleServices sampleHeaders
       [\<lparr>queryId = None, idPattern = Some ''d.*'', queryType = Some ''Robot''\<rparr>] None []
       = (Responded 400 (ErrorNgsi2 ''BadRequest'' ''idPattern usage in query''), [])"
  using handleQueryNgsi2_rejects_before_lookup
      [of "[\<lparr>queryId = Some ''d1'', idPattern = None, queryType = Some ''Robot''\<rparr>,
            \<lparr>queryId = Some ''d2'', idPattern = None, queryType = Some ''Robot''\<rparr>]"
          sampleServer sampleServices sampleHeaders None "[]"]
    handleQueryNgsi2_rejects_before_lookup
      [of "[\<lparr>queryId = None, idPattern = Some ''d.*'', queryType = Some ''Robot''\<rparr>]"
          sampleServer sampleServices sampleHeaders None "[]"]
  by (simp add: stringTruthy_def)

text \<open>An accepted query, for comparison: the directory is asked for the device.\<close>

lemma queryRouteNgsi2_accepted_example:
  "queryRouteNgsi2 sampleServer sampleServices sampleHeaders
     [\<lparr>queryId = Some ''d1'', idPattern = None, queryType = Some ''Robot''\<rparr>] None []
     = (Responded 200 (Entities [[]]),
        [GetDeviceByName (Some ''d1'') ''smartgondor'' ''/gardens'', FindConfigurationGroup sampleDevice])"
  by code_simp

end
